theory Spec2Isabelle
  imports Complex_Main "HOL-Library.Word"
begin

unbundle bit_operations_syntax

chapter \<open>The macOS image and print adapters of Tk\<close>

text \<open>
  A shallow embedding of \<open>macosx/tkMacOSXImage.c\<close> and \<open>macosx/tkMacOSXPrint.c\<close>: the pixel
  access functions of an \<open>XImage\<close>, \<open>XCreateImage\<close> and the conversion to a native image;
  the \<open>nsimage\<close> image type; and the print dialog.  The definitions come first, the
  theorems follow.  Calls into the operating system, Tcl and Tk are parameters of the
  functions that make them.
\<close>


section \<open>C data of \<open>tkMacOSXImage.c\<close>\<close>

text \<open>
  The C types of the source on macOS (an LP64 platform): \<open>int\<close> and \<open>unsigned int\<close>
  are 32 bits wide, \<open>unsigned long\<close> and \<open>size_t\<close> 64 bits, \<open>unsigned short\<close> 16 bits
  and \<open>unsigned char\<close> 8 bits.  An \<open>int\<close> is kept as its 32-bit pattern and read with
  \<open>sint\<close>; arithmetic on it is the two's-complement arithmetic of the machine.
\<close>

type_synonym u8 = "8 word"
type_synonym u16 = "16 word"
type_synonym cint = "32 word"
type_synonym cuint = "32 word"
type_synonym ulong = "64 word"
type_synonym size_t = "64 word"

text \<open>Constants of \<open>X.h\<close>, \<open>Xlib.h\<close> and \<open>sys/param.h\<close> that the source names.\<close>

definition XYBitmap :: cint where "XYBitmap = 0"
definition XYPixmap :: cint where "XYPixmap = 1"
definition ZPixmap :: cint where "ZPixmap = 2"
definition LSBFirst :: cint where "LSBFirst = 0"
definition MSBFirst :: cint where "MSBFirst = 1"
definition NBBY :: int where "NBBY = 8"

text \<open>
  The \<open>XImage\<close> structure of \<open>Xlib.h\<close>.  A \<open>data\<close> pointer is either \<open>NULL\<close>
  (\<open>None\<close>) or the byte buffer it points to.  The \<open>obdata\<close> pointer and the table
  \<open>f\<close> of function pointers are never read by the functions below and are left out.
\<close>

record XImage =
  width :: cint
  height :: cint
  xoffset :: cint
  format :: cint
  data :: "u8 list option"
  byte_order :: cint
  bitmap_unit :: cint
  bitmap_bit_order :: cint
  bitmap_pad :: cint
  depth :: cint
  bytes_per_line :: cint
  bits_per_pixel :: cint
  red_mask :: ulong
  green_mask :: ulong
  blue_mask :: ulong

text \<open>
  What C leaves undefined is a value of the model: an access outside a buffer or an array,
  a shift by a negative count, the use of a \<open>NULL\<close> pointer, and a read of memory that
  was never written.
\<close>

datatype fault = OutOfBounds | NegativeShift | NullPointer | UninitialisedRead

subsection \<open>C division and remainder\<close>

text \<open>C's \<open>/\<close> truncates towards zero and \<open>%\<close> takes the sign of the dividend.\<close>

definition c_div :: "int \<Rightarrow> int \<Rightarrow> int" where
  "c_div a b = sgn a * sgn b * (\<bar>a\<bar> div \<bar>b\<bar>)"

definition c_rem :: "int \<Rightarrow> int \<Rightarrow> int" where
  "c_rem a b = a - b * c_div a b"

subsection \<open>Reading and writing the byte buffer\<close>

text \<open>
  Accesses through \<open>unsigned char *\<close>, \<open>unsigned short *\<close> and \<open>unsigned int *\<close> at a
  byte offset from the start of the buffer.  The multi-byte accesses use the byte order
  of the host, the build flag \<open>WORDS_BIGENDIAN\<close> of the source (parameter \<open>be\<close>).
\<close>

definition in_buf :: "u8 list \<Rightarrow> int \<Rightarrow> nat \<Rightarrow> bool" where
  "in_buf d off n \<longleftrightarrow> 0 \<le> off \<and> off + int n \<le> int (length d)"

definition load8 :: "u8 list \<Rightarrow> int \<Rightarrow> fault + u8" where
  "load8 d off = (if in_buf d off 1 then Inr (d ! nat off) else Inl OutOfBounds)"

definition store8 :: "u8 list \<Rightarrow> int \<Rightarrow> u8 \<Rightarrow> fault + u8 list" where
  "store8 d off v = (if in_buf d off 1 then Inr (d[nat off := v]) else Inl OutOfBounds)"

definition cat16 :: "u8 \<Rightarrow> u8 \<Rightarrow> u16" where
  "cat16 lo hi = ucast lo OR push_bit 8 (ucast hi)"

definition cat32 :: "u8 \<Rightarrow> u8 \<Rightarrow> u8 \<Rightarrow> u8 \<Rightarrow> cuint" where
  "cat32 b0 b1 b2 b3 =
     ucast b0 OR push_bit 8 (ucast b1) OR push_bit 16 (ucast b2) OR push_bit 24 (ucast b3)"

definition load16 :: "bool \<Rightarrow> u8 list \<Rightarrow> int \<Rightarrow> fault + u16" where
  "load16 be d off =
     (if in_buf d off 2 then
        (let b0 = d ! nat off; b1 = d ! (nat off + 1)
         in Inr (if be then cat16 b1 b0 else cat16 b0 b1))
      else Inl OutOfBounds)"

definition store16 :: "bool \<Rightarrow> u8 list \<Rightarrow> int \<Rightarrow> u16 \<Rightarrow> fault + u8 list" where
  "store16 be d off v =
     (if in_buf d off 2 then
        (let lo = ucast v :: u8; hi = ucast (drop_bit 8 v) :: u8
         in Inr (if be then d[nat off := hi, nat off + 1 := lo]
                 else d[nat off := lo, nat off + 1 := hi]))
      else Inl OutOfBounds)"

definition load32 :: "bool \<Rightarrow> u8 list \<Rightarrow> int \<Rightarrow> fault + cuint" where
  "load32 be d off =
     (if in_buf d off 4 then
        (let b0 = d ! nat off; b1 = d ! (nat off + 1);
             b2 = d ! (nat off + 2); b3 = d ! (nat off + 3)
         in Inr (if be then cat32 b3 b2 b1 b0 else cat32 b0 b1 b2 b3))
      else Inl OutOfBounds)"

definition store32 :: "bool \<Rightarrow> u8 list \<Rightarrow> int \<Rightarrow> cuint \<Rightarrow> fault + u8 list" where
  "store32 be d off v =
     (if in_buf d off 4 then
        (let b0 = ucast v :: u8; b1 = ucast (drop_bit 8 v) :: u8;
             b2 = ucast (drop_bit 16 v) :: u8; b3 = ucast (drop_bit 24 v) :: u8
         in Inr (if be then d[nat off := b3, nat off + 1 := b2, nat off + 2 := b1, nat off + 3 := b0]
                 else d[nat off := b0, nat off + 1 := b1, nat off + 2 := b2, nat off + 3 := b3]))
      else Inl OutOfBounds)"

subsection \<open>\<open>ImageGetPixel\<close> and \<open>ImagePutPixel\<close>\<close>

text \<open>
  The byte offset both functions add to \<open>image->data\<close>:
  \<open>(y * image->bytes_per_line) + (((image->xoffset + x) * image->bits_per_pixel) / NBBY)\<close>.
  The two summands are \<open>int\<close> expressions, added to the pointer one after the other.
\<close>

definition pixel_offset :: "XImage \<Rightarrow> cint \<Rightarrow> cint \<Rightarrow> int" where
  "pixel_offset im x y =
     sint (y * bytes_per_line im)
     + c_div (sint ((xoffset im + x) * bits_per_pixel im)) NBBY"

text \<open>\<open>0x80 >> (x % 8)\<close>, an \<open>int\<close>; the shift is undefined for a negative count.\<close>

definition bit_mask :: "cint \<Rightarrow> fault + cint" where
  "bit_mask x =
     (let k = c_rem (sint x) 8
      in if k < 0 then Inl NegativeShift else Inr (drop_bit (nat k) (0x80 :: cint)))"

text \<open>
  The 8-bit red, green and blue values \<open>ImageGetPixel\<close> computes before it hands them to
  \<open>TkMacOSXRGBPixel\<close>.  The operands of the shifts are promoted to \<open>int\<close> and the results
  are cut to \<open>unsigned char\<close>, as in C.
\<close>

definition ImageGetPixel_rgb :: "bool \<Rightarrow> XImage option \<Rightarrow> cint \<Rightarrow> cint \<Rightarrow> fault + (u8 \<times> u8 \<times> u8)" where
  "ImageGetPixel_rgb be img x y =
     (case img of
        None \<Rightarrow> Inr (0, 0, 0)
      | Some im \<Rightarrow>
         (case data im of
            None \<Rightarrow> Inr (0, 0, 0)
          | Some d \<Rightarrow>
             (let srcPtr = pixel_offset im x y; bpp = bits_per_pixel im in
              if bpp = 32 then
                (case load32 be d srcPtr of
                   Inl e \<Rightarrow> Inl e
                 | Inr w \<Rightarrow> Inr (ucast (drop_bit 16 w AND 0xff),
                                 ucast (drop_bit 8 w AND 0xff),
                                 ucast (w AND 0xff)))
              else if bpp = 16 then
                (case load16 be d srcPtr of
                   Inl e \<Rightarrow> Inl e
                 | Inr h \<Rightarrow>
                    (let w = ucast h :: cint
                     in Inr (ucast (drop_bit 7 w AND 0xf8),
                             ucast (drop_bit 2 w AND 0xf8),
                             ucast (push_bit 3 w AND 0xf8))))
              else if bpp = 8 then
                (case load8 d srcPtr of
                   Inl e \<Rightarrow> Inl e
                 | Inr c \<Rightarrow>
                    (let w = ucast c :: cint;
                         r = ucast (push_bit 2 w AND 0xc0) :: u8;
                         g = ucast (push_bit 4 w AND 0xc0) :: u8;
                         b = ucast (push_bit 6 w AND 0xc0) :: u8
                     in Inr (r OR (drop_bit 2 r OR drop_bit 4 r OR drop_bit 6 r),
                             g OR (drop_bit 2 g OR drop_bit 4 g OR drop_bit 6 g),
                             b OR (drop_bit 2 b OR drop_bit 4 b OR drop_bit 6 b))))
              else if bpp = 4 then
                (case load8 d srcPtr of
                   Inl e \<Rightarrow> Inl e
                 | Inr s \<Rightarrow>
                    (let c = (if c_rem (sint x) 2 \<noteq> 0 then s else drop_bit 4 s)
                     in Inr (if c AND 0x04 \<noteq> 0 then 0xff else 0,
                             if c AND 0x02 \<noteq> 0 then 0xff else 0,
                             if c AND 0x01 \<noteq> 0 then 0xff else 0)))
              else if bpp = 1 then
                (case load8 d srcPtr of
                   Inl e \<Rightarrow> Inl e
                 | Inr s \<Rightarrow>
                    (case bit_mask x of
                       Inl e \<Rightarrow> Inl e
                     | Inr m \<Rightarrow>
                        (let v = (if ucast s AND m \<noteq> 0 then 0xff else 0) :: u8
                         in Inr (v, v, v))))
              else Inr (0, 0, 0))))"

text \<open>
  \<open>ImageGetPixel\<close> itself returns \<open>TkMacOSXRGBPixel(r, g, b)\<close>.  That function is defined
  in another file (\<open>tkMacOSXColor.c\<close>), so it is a parameter here.
\<close>

definition ImageGetPixel :: "(u8 \<Rightarrow> u8 \<Rightarrow> u8 \<Rightarrow> ulong) \<Rightarrow> bool \<Rightarrow> XImage option \<Rightarrow> cint \<Rightarrow> cint \<Rightarrow> fault + ulong" where
  "ImageGetPixel TkMacOSXRGBPixel be img x y =
     (case ImageGetPixel_rgb be img x y of
        Inl e \<Rightarrow> Inl e
      | Inr (r, g, b) \<Rightarrow> Inr (TkMacOSXRGBPixel r g b))"

text \<open>
  \<open>ImagePutPixel\<close> returns the buffer it has written (the image is changed in place in C)
  together with its return value, which is always 0.
\<close>

definition ImagePutPixel :: "bool \<Rightarrow> XImage option \<Rightarrow> cint \<Rightarrow> cint \<Rightarrow> ulong \<Rightarrow> fault + (XImage option \<times> cint)" where
  "ImagePutPixel be img x y pixel =
     (case img of
        None \<Rightarrow> Inr (None, 0)
      | Some im \<Rightarrow>
         (case data im of
            None \<Rightarrow> Inr (Some im, 0)
          | Some d \<Rightarrow>
             (let dstPtr = pixel_offset im x y; bpp = bits_per_pixel im;
                  finish = (\<lambda>res. case res of
                            Inl e \<Rightarrow> Inl e
                          | Inr d' \<Rightarrow> Inr (Some (im\<lparr>data := Some d'\<rparr>), 0 :: cint))
              in
              if bpp = 32 then finish (store32 be d dstPtr (ucast pixel))
              else
                (let r = ucast (drop_bit 16 (pixel AND red_mask im) AND 0xff) :: u8;
                     g = ucast (drop_bit 8 (pixel AND green_mask im) AND 0xff) :: u8;
                     b = ucast ((pixel AND blue_mask im) AND 0xff) :: u8;
                     r' = ucast r :: cint; g' = ucast g :: cint; b' = ucast b :: cint
                 in
                 if bpp = 16 then
                   finish (store16 be d dstPtr
                     (ucast (push_bit 7 (r' AND 0xf8) OR push_bit 2 (g' AND 0xf8)
                             OR drop_bit 3 (b' AND 0xf8))))
                 else if bpp = 8 then
                   finish (store8 d dstPtr
                     (ucast (drop_bit 2 (r' AND 0xc0) OR drop_bit 4 (g' AND 0xc0)
                             OR drop_bit 6 (b' AND 0xc0))))
                 else if bpp = 4 then
                   (case load8 d dstPtr of
                      Inl e \<Rightarrow> Inl e
                    | Inr old \<Rightarrow>
                       (let c = ucast (drop_bit 5 (r' AND 0x80) OR drop_bit 6 (g' AND 0x80)
                                       OR drop_bit 7 (b' AND 0x80)) :: u8;
                            c' = ucast c :: cint; old' = ucast old :: cint
                        in finish (store8 d dstPtr
                             (ucast (if c_rem (sint x) 2 \<noteq> 0
                                     then (old' AND 0xf0) OR (c' AND 0x0f)
                                     else (old' AND 0x0f) OR (push_bit 4 c' AND 0xf0))))))
                 else if bpp = 1 then
                   (case load8 d dstPtr of
                      Inl e \<Rightarrow> Inl e
                    | Inr old \<Rightarrow>
                       (case bit_mask x of
                          Inl e \<Rightarrow> Inl e
                        | Inr m \<Rightarrow>
                           (let old' = ucast old :: cint
                            in finish (store8 d dstPtr
                                 (ucast (if (r' OR g' OR b') AND 0x80 \<noteq> 0
                                         then old' OR m else old' AND NOT m))))))
                 else Inr (Some im, 0)))))"

subsection \<open>Well-formed images, coordinates and colour channels\<close>

text \<open>
  A pixel buffer descriptor as the data model describes it: a buffer is present, offset and
  dimensions are not negative, a row of \<open>xoffset + width\<close> pixels fits into the row
  stride, the buffer holds \<open>bytes_per_line * height\<close> bytes, and the sizes are small
  enough for the \<open>int\<close> arithmetic of the offset.
\<close>

definition image_ok :: "XImage \<Rightarrow> bool" where
  "image_ok im \<longleftrightarrow>
     (case data im of
        None \<Rightarrow> False
      | Some d \<Rightarrow>
          0 \<le> sint (xoffset im) \<and> 0 \<le> sint (width im) \<and> 0 \<le> sint (height im)
          \<and> 0 \<le> sint (bytes_per_line im) \<and> 0 < sint (bits_per_pixel im)
          \<and> (sint (xoffset im) + sint (width im)) * sint (bits_per_pixel im)
                \<le> 8 * sint (bytes_per_line im)
          \<and> sint (bytes_per_line im) * sint (height im) \<le> int (length d)
          \<and> sint (bytes_per_line im) * sint (height im) < 2 ^ 31
          \<and> (sint (xoffset im) + sint (width im)) * sint (bits_per_pixel im) < 2 ^ 31)"

definition in_range :: "XImage \<Rightarrow> cint \<Rightarrow> cint \<Rightarrow> bool" where
  "in_range im x y \<longleftrightarrow>
     0 \<le> sint x \<and> sint x < sint (width im) \<and> 0 \<le> sint y \<and> sint y < sint (height im)"

text \<open>The channel masks \<open>XCreateImage\<close> installs.\<close>

definition default_masks :: "XImage \<Rightarrow> bool" where
  "default_masks im \<longleftrightarrow>
     red_mask im = 0x00FF0000 \<and> green_mask im = 0x0000FF00 \<and> blue_mask im = 0x000000FF"

text \<open>The 8-bit channels of a pixel value under these masks: bits 23-16, 15-8 and 7-0.\<close>

definition red_of :: "ulong \<Rightarrow> u8" where "red_of p = ucast (drop_bit 16 p)"
definition green_of :: "ulong \<Rightarrow> u8" where "green_of p = ucast (drop_bit 8 p)"
definition blue_of :: "ulong \<Rightarrow> u8" where "blue_of p = ucast p"

text \<open>Bits per channel at each depth, and agreement of two bytes on their top \<open>n\<close> bits.\<close>

definition channel_bits :: "cint \<Rightarrow> nat" where
  "channel_bits bpp = (if bpp = 32 then 8 else if bpp = 16 then 5 else if bpp = 8 then 2 else 1)"

definition agree_top :: "nat \<Rightarrow> u8 \<Rightarrow> u8 \<Rightarrow> bool" where
  "agree_top n a b \<longleftrightarrow> drop_bit (8 - n) a = drop_bit (8 - n) b"

subsection \<open>Named parts of \<open>ImagePutPixel\<close>\<close>

text \<open>
  The sub-expressions of \<open>ImagePutPixel\<close>, named so that the proofs can speak about them:
  the three channel bytes it extracts from the pixel value, and the values it packs into
  the buffer at depths 16, 8 and 4.
\<close>

definition put_r :: "XImage \<Rightarrow> ulong \<Rightarrow> u8" where
  "put_r im pixel = ucast (drop_bit 16 (pixel AND red_mask im) AND 0xff)"

definition put_g :: "XImage \<Rightarrow> ulong \<Rightarrow> u8" where
  "put_g im pixel = ucast (drop_bit 8 (pixel AND green_mask im) AND 0xff)"

definition put_b :: "XImage \<Rightarrow> ulong \<Rightarrow> u8" where
  "put_b im pixel = ucast ((pixel AND blue_mask im) AND 0xff)"

definition pack16 :: "u8 \<Rightarrow> u8 \<Rightarrow> u8 \<Rightarrow> u16" where
  "pack16 r g b = ucast (push_bit 7 ((ucast r :: cint) AND 0xf8) OR push_bit 2 ((ucast g :: cint) AND 0xf8)
                             OR drop_bit 3 ((ucast b :: cint) AND 0xf8))"

definition pack8 :: "u8 \<Rightarrow> u8 \<Rightarrow> u8 \<Rightarrow> u8" where
  "pack8 r g b = ucast (drop_bit 2 ((ucast r :: cint) AND 0xc0) OR drop_bit 4 ((ucast g :: cint) AND 0xc0)
                             OR drop_bit 6 ((ucast b :: cint) AND 0xc0))"

definition pack4 :: "u8 \<Rightarrow> u8 \<Rightarrow> u8 \<Rightarrow> u8" where
  "pack4 r g b = ucast (drop_bit 5 ((ucast r :: cint) AND 0x80) OR drop_bit 6 ((ucast g :: cint) AND 0x80)
                                       OR drop_bit 7 ((ucast b :: cint) AND 0x80))"

definition merge4 :: "bool \<Rightarrow> u8 \<Rightarrow> u8 \<Rightarrow> u8" where
  "merge4 lowhalf old c = ucast (if lowhalf
                                     then ((ucast old :: cint) AND 0xf0) OR ((ucast c :: cint) AND 0x0f)
                                     else ((ucast old :: cint) AND 0x0f) OR (push_bit 4 (ucast c :: cint) AND 0xf0))"

subsection \<open>A concrete image\<close>

text \<open>
  A 2 x 2 image with a row stride of 8 bytes and the default masks, at a chosen depth and
  over a chosen buffer, and a packing of three channel bytes into a pixel value to stand
  for \<open>TkMacOSXRGBPixel\<close>; both are used to instantiate the theorems.
\<close>

definition example_image :: "cint \<Rightarrow> u8 list \<Rightarrow> XImage" where
  "example_image bpp d =
     \<lparr>width = 2, height = 2, xoffset = 0, format = ZPixmap, data = Some d,
      byte_order = LSBFirst, bitmap_unit = 32, bitmap_bit_order = LSBFirst, bitmap_pad = 32,
      depth = 24, bytes_per_line = 8, bits_per_pixel = bpp,
      red_mask = 0x00FF0000, green_mask = 0x0000FF00, blue_mask = 0x000000FF\<rparr>"

definition example_RGBPixel :: "u8 \<Rightarrow> u8 \<Rightarrow> u8 \<Rightarrow> ulong" where
  "example_RGBPixel r g b = push_bit 16 (ucast r) OR push_bit 8 (ucast g) OR ucast b"

subsection \<open>The per-depth conversion rule, as the specification words it\<close>

text \<open>
  The stored pixel that \<open>ImageGetPixel\<close> addresses, as a number: the 32-bit word, the
  16-bit half word or the byte at the pixel's offset; at depth 4 the nibble of that byte
  which the parity of \<open>x\<close> selects; at depth 1 the addressed bit, 1 when it is set.
\<close>

definition stored_pixel :: "bool \<Rightarrow> XImage \<Rightarrow> u8 list \<Rightarrow> cint \<Rightarrow> cint \<Rightarrow> fault + nat" where
  "stored_pixel be im d x y =
     (let off = pixel_offset im x y; bpp = bits_per_pixel im in
      if bpp = 32 then map_sum id unat (load32 be d off)
      else if bpp = 16 then map_sum id unat (load16 be d off)
      else if bpp = 8 then map_sum id unat (load8 d off)
      else if bpp = 4 then
        map_sum id (\<lambda>s. if c_rem (sint x) 2 \<noteq> 0 then unat s mod 16 else unat s div 16)
          (load8 d off)
      else if bpp = 1 then
        (case load8 d off of
           Inl e \<Rightarrow> Inl e
         | Inr s \<Rightarrow>
            (case bit_mask x of
               Inl e \<Rightarrow> Inl e
             | Inr m \<Rightarrow> Inr (if ucast s AND m \<noteq> 0 then 1 else 0)))
      else Inr 0)"

text \<open>The \<open>n\<close>-bit field of \<open>v\<close> that starts at bit \<open>lo\<close>.\<close>

definition bit_field :: "nat \<Rightarrow> nat \<Rightarrow> nat \<Rightarrow> nat" where
  "bit_field v lo n = (v div 2 ^ lo) mod 2 ^ n"

text \<open>
  The rule of the specification: at depth 32 the three bytes at bits 23-16, 15-8 and 7-0;
  at depth 16 each 5-bit channel times 8; at depth 8 each 2-bit channel times 85; at
  depth 4 a set channel bit gives 255 and a clear one 0; at depth 1 all three channels are
  255 when the addressed bit is set and 0 otherwise.  No other depth is converted.
\<close>

definition depth_rule :: "nat \<Rightarrow> nat \<Rightarrow> nat \<times> nat \<times> nat" where
  "depth_rule bpp v =
     (if bpp = 32 then (bit_field v 16 8, bit_field v 8 8, bit_field v 0 8)
      else if bpp = 16 then (bit_field v 10 5 * 8, bit_field v 5 5 * 8, bit_field v 0 5 * 8)
      else if bpp = 8 then (bit_field v 4 2 * 85, bit_field v 2 2 * 85, bit_field v 0 2 * 85)
      else if bpp = 4 then
        (if bit_field v 2 1 = 1 then 255 else 0,
         if bit_field v 1 1 = 1 then 255 else 0,
         if bit_field v 0 1 = 1 then 255 else 0)
      else if bpp = 1 then (if v \<noteq> 0 then (255, 255, 255) else (0, 0, 0))
      else (0, 0, 0))"

text \<open>The replication of the top two bits of a byte that \<open>ImageGetPixel\<close> does at depth 8.\<close>

definition spread2 :: "u8 \<Rightarrow> u8" where
  "spread2 r = r OR (drop_bit 2 r OR drop_bit 4 r OR drop_bit 6 r)"


subsection \<open>\<open>XCreateImage\<close>\<close>



subsection \<open>\<open>TkMacOSXCreateCGImageWithXImage\<close>\<close>

text \<open>
  \<open>size_t len = image->bytes_per_line * image->height\<close>: a product of two \<open>int\<close>s,
  converted to \<open>size_t\<close>.
\<close>

definition image_len :: "XImage \<Rightarrow> size_t" where
  "image_len image' = scast (bytes_per_line image' * height image')"

text \<open>
  The \<open>len\<close> bytes at \<open>image->data + image->xoffset\<close> that the function copies.  Nothing
  is read when \<open>len\<close> is 0.
\<close>

definition image_bytes :: "XImage \<Rightarrow> size_t \<Rightarrow> fault + u8 list" where
  "image_bytes image' len =
     (if len = 0 then Inr []
      else case data image' of
             None \<Rightarrow> Inl NullPointer
           | Some d \<Rightarrow>
               if in_buf d (sint (xoffset image')) (unat len)
               then Inr (take (unat len) (drop (nat (sint (xoffset image'))) d))
               else Inl OutOfBounds)"

text \<open>
  The Core Graphics calls of the function.  They belong to the operating system, so they
  are parameters: each returns an object or \<open>NULL\<close> (\<open>None\<close>).  A data provider is given
  by the bytes it was created with.  The arguments are those of the source, in its order;
  the colour space, the rendering intent and the release callback are left out.
\<close>

record 'img CoreGraphics =
  CGDataProviderCreateWithData :: "u8 list \<Rightarrow> u8 list option"
  CGImageMaskCreate :: "size_t \<Rightarrow> size_t \<Rightarrow> size_t \<Rightarrow> size_t \<Rightarrow> size_t \<Rightarrow> u8 list \<Rightarrow> nat list \<Rightarrow> bool \<Rightarrow> 'img option"
  CGImageCreate :: "size_t \<Rightarrow> size_t \<Rightarrow> size_t \<Rightarrow> size_t \<Rightarrow> size_t \<Rightarrow> cuint \<Rightarrow> u8 list \<Rightarrow> bool \<Rightarrow> 'img option"

text \<open>Constants of \<open>CGImage.h\<close>.\<close>

definition kCGBitmapByteOrder32Little :: cuint where "kCGBitmapByteOrder32Little = 0x2000"
definition kCGBitmapByteOrder32Big :: cuint where "kCGBitmapByteOrder32Big = 0x4000"

text \<open>
  The function returns the image or \<open>NULL\<close>.  \<open>xBitReverseTable\<close> (of \<open>xbytes.h\<close>) is a
  parameter.  \<open>ckalloc\<close> does not return \<open>NULL\<close>.  The \<open>int\<close> fields \<open>width\<close>, \<open>height\<close>
  and \<open>bytes_per_line\<close> are converted to \<open>size_t\<close> arguments.
\<close>

definition TkMacOSXCreateCGImageWithXImage ::
  "'img CoreGraphics \<Rightarrow> (u8 \<Rightarrow> u8) \<Rightarrow> XImage \<Rightarrow> cuint \<Rightarrow> fault + 'img option" where
  "TkMacOSXCreateCGImageWithXImage cg xBitReverseTable image' alphaInfo =
     (let len = image_len image' in
      if bits_per_pixel image' = 1 then
        (case image_bytes image' len of
           Inl e \<Rightarrow> Inl e
         | Inr src \<Rightarrow>
            (let data' = (if bitmap_bit_order image' \<noteq> MSBFirst
                          then map xBitReverseTable src else src)
             in Inr (case CGDataProviderCreateWithData cg data' of
                       None \<Rightarrow> None
                     | Some provider \<Rightarrow>
                         CGImageMaskCreate cg (scast (width image')) (scast (height image'))
                           1 1 (scast (bytes_per_line image')) provider [1, 0] False)))
      else if format image' = ZPixmap \<and> bits_per_pixel image' = 32 then
        (if width image' = 0 \<and> height image' = 0 then Inr None
         else
           (let bitmapInfo = (if byte_order image' = MSBFirst
                              then kCGBitmapByteOrder32Little else kCGBitmapByteOrder32Big)
                             OR alphaInfo
            in case image_bytes image' len of
                 Inl e \<Rightarrow> Inl e
               | Inr data' \<Rightarrow>
                  Inr (case CGDataProviderCreateWithData cg data' of
                         None \<Rightarrow> None
                       | Some provider \<Rightarrow>
                           CGImageCreate cg (scast (width image')) (scast (height image'))
                             8 32 (scast (bytes_per_line image')) bitmapInfo provider False)))
      else Inr None)"

text \<open>
  A Core Graphics that always succeeds and returns a description of the image it was asked
  for; used to instantiate the theorems.
\<close>

definition example_cg :: "(bool \<times> size_t \<times> size_t \<times> size_t \<times> u8 list) CoreGraphics" where
  "example_cg =
     \<lparr>CGDataProviderCreateWithData = Some,
      CGImageMaskCreate = (\<lambda>w h bpc bpp bpr pr dec ip. Some (True, w, h, bpr, pr)),
      CGImageCreate = (\<lambda>w h bpc bpp bpr bi pr ip. Some (False, w, h, bpr, pr))\<rparr>"

section \<open>The \<open>nsimage\<close> image type\<close>

subsection \<open>Images of the operating system\<close>

text \<open>
  An \<open>NSImage\<close> is an object of the operating system.  The model keeps what the source
  can observe or change: what the image shows when it is loaded (\<open>pixels\<close>, of a type
  the model leaves open), its size (set from two \<open>int\<close>s), whether it is a template
  image, and the drawing that the source does into it afterwards, oldest first.
\<close>

datatype NSColor = blackColor | whiteColor

datatype edit =
    FillSourceAtop NSColor "int \<times> int"  \<comment> \<open>\<open>NSRectFillUsingOperation(rect, NSCompositeSourceAtop)\<close>\<close>
  | Tint NSColor real                   \<comment> \<open>the effect of \<open>TintImage\<close>\<close>

record 'c NSImage =
  pixels :: 'c
  size_of :: "int \<times> int"
  isTemplate :: bool
  edits :: "edit list"

definition setSize :: "int \<times> int \<Rightarrow> 'c NSImage \<Rightarrow> 'c NSImage" where
  "setSize sz im = im\<lparr>size_of := sz\<rparr>"

text \<open>
  \<open>TintImage(image, color, alpha)\<close> paints the opaque part of the image with the colour at
  the given transparency; the model records it as one edit.
\<close>

definition TintImage :: "'c NSImage \<Rightarrow> NSColor \<Rightarrow> real \<Rightarrow> 'c NSImage" where
  "TintImage im color alpha' = im\<lparr>edits := edits im @ [Tint color alpha']\<rparr>"

text \<open>
  The four ways the source asks the operating system for an image.  Each may find none
  (\<open>nil\<close>, \<open>None\<close>).  They are parameters.
\<close>

record 'c Cocoa =
  imageNamed :: "string \<Rightarrow> 'c NSImage option"
  initWithContentsOfFile :: "string \<Rightarrow> 'c NSImage option"
  iconForFile :: "string \<Rightarrow> 'c NSImage option"
  iconForFileType :: "string \<Rightarrow> 'c NSImage option"

subsection \<open>Masters and instances\<close>

type_synonym addr = nat

text \<open>
  \<open>struct TkNSImageMaster\<close>.  The two tokens \<open>tkMaster\<close> and \<open>interp\<close> are left out; the
  strings are \<open>NULL\<close> (\<open>None\<close>) or a C string.
\<close>

record 'c TkNSImageMaster =
  m_width :: cint
  m_height :: cint
  alpha :: real
  pressed :: bool
  imageName :: "string option"
  source :: "string option"
  as :: "string option"
  flags :: cint
  instancePtr :: "addr option"
  image :: "'c NSImage option"
  darkModeImage :: "'c NSImage option"

text \<open>
  \<open>struct TkNSImageInstance\<close>.  \<open>ckalloc\<close> does not clear memory: a field that was never
  written has no defined value, which is \<open>None\<close> for \<open>inst_image\<close> and \<open>nextPtr\<close>.
\<close>

record 'c TkNSImageInstance =
  masterPtr :: addr
  inst_image :: "'c NSImage option"
  nextPtr :: "addr option"

definition IMAGE_CHANGED :: cint where "IMAGE_CHANGED = 1"

datatype tcl_code = TCL_OK | TCL_ERROR

subsection \<open>Option lookup of the Tcl library\<close>

text \<open>
  \<open>sourceInterpretations\<close> as it lies in memory: an array of four string pointers.  The
  array of the source has no \<open>NULL\<close> entry at its end.  An entry of a table is \<open>Some\<close>
  string, or \<open>None\<close> for a \<open>NULL\<close> pointer.
\<close>

definition sourceInterpretations :: "string option list" where
  "sourceInterpretations = [Some ''name'', Some ''file'', Some ''path'', Some ''filetype'']"

definition NAME_SOURCE :: nat where "NAME_SOURCE = 0"
definition FILE_SOURCE :: nat where "FILE_SOURCE = 1"
definition PATH_SOURCE :: nat where "PATH_SOURCE = 2"
definition FILETYPE_SOURCE :: nat where "FILETYPE_SOURCE = 3"

text \<open>
  \<open>Tcl_GetIndexFromObj\<close> belongs to the Tcl library, not to this repository.  The model
  follows its manual page and \<open>tclIndexObj.c\<close> for the call the source makes, with
  \<open>flags = 0\<close>: the table is walked up to its \<open>NULL\<close> entry; an entry equal to the key ends
  the walk with that index; an entry of which the key is a proper prefix counts as an
  abbreviation; at the \<open>NULL\<close> entry the key is accepted when it is not empty and has
  exactly one abbreviation.  The result is the index, or \<open>None\<close> for \<open>TCL_ERROR\<close>.  A walk
  that leaves the array before a \<open>NULL\<close> entry reads outside the array.
\<close>

fun index_scan :: "string \<Rightarrow> string option list \<Rightarrow> nat \<Rightarrow> nat \<Rightarrow> nat \<Rightarrow> fault + nat option" where
  "index_scan key [] idx numAbbrev index = Inl OutOfBounds"
| "index_scan key (None # rest) idx numAbbrev index =
     (if key = [] \<or> numAbbrev \<noteq> 1 then Inr None else Inr (Some index))"
| "index_scan key (Some entry # rest) idx numAbbrev index =
     (if key = entry then Inr (Some idx)
      else if take (length key) entry = key
           then index_scan key rest (idx + 1) (numAbbrev + 1) idx
           else index_scan key rest (idx + 1) numAbbrev index)"

definition tcl_GetIndexFromObj :: "string \<Rightarrow> string option list \<Rightarrow> fault + nat option" where
  "tcl_GetIndexFromObj key tablePtr = index_scan key tablePtr 0 0 0"

text \<open>
  The functions of Tcl and Tk that \<open>TkNSImageConfigureMaster\<close> calls are parameters:
  \<open>Tk_SetOptions\<close> gives the master with the options stored, or \<open>None\<close> for \<open>TCL_ERROR\<close>;
  \<open>Tk_GetOptionValue\<close> gives the string value of a named option of the master.
\<close>

record 'c TclTk =
  Tk_SetOptions :: "'c TkNSImageMaster \<Rightarrow> string list \<Rightarrow> 'c TkNSImageMaster option"
  Tk_GetOptionValue :: "'c TkNSImageMaster \<Rightarrow> string \<Rightarrow> string"
  Tcl_GetIndexFromObj :: "string \<Rightarrow> string option list \<Rightarrow> fault + nat option"

subsection \<open>\<open>TkNSImageConfigureMaster\<close>\<close>

text \<open>
  What a call leaves behind: the return code, the master (changed in place in C), the
  message it has put into the interpreter's result, if any, and whether it has called
  \<open>Tk_ImageChanged\<close>.
\<close>

record 'c configured =
  code :: tcl_code
  master :: "'c TkNSImageMaster"
  message :: "string option"
  changed :: bool

definition errorExit :: "'c TkNSImageMaster \<Rightarrow> string option \<Rightarrow> 'c configured" where
  "errorExit m msg = \<lparr>code = TCL_ERROR, master = m, message = msg, changed = False\<rparr>"

definition TkNSImageConfigureMaster ::
  "'c Cocoa \<Rightarrow> 'c TclTk \<Rightarrow> 'c TkNSImageMaster \<Rightarrow> string list \<Rightarrow> fault + 'c configured" where
  "TkNSImageConfigureMaster os tk masterPtr0 objv =
     (case Tk_SetOptions tk masterPtr0 objv of
        None \<Rightarrow> Inr (errorExit masterPtr0 None)
      | Some m \<Rightarrow>
         (if source m = None \<or> (case source m of Some (c # _) \<Rightarrow> c = CHR ''0'' | _ \<Rightarrow> False)
          then Inr (errorExit m (Some ''-source is required.''))
          else
            (case Tcl_GetIndexFromObj tk (Tk_GetOptionValue tk m ''-as'') sourceInterpretations of
               Inl e \<Rightarrow> Inl e
             | Inr None \<Rightarrow>
                 Inr (errorExit m (Some (''Unknown interpretation for source in -as option.  ''
                                         @ ''Should be name, file, path, or filetype.'')))
             | Inr (Some sourceInterpretation) \<Rightarrow>
                (let src = the (source m);
                     newImage =
                       (if sourceInterpretation = NAME_SOURCE then imageNamed os src
                        else if sourceInterpretation = FILE_SOURCE then initWithContentsOfFile os src
                        else if sourceInterpretation = PATH_SOURCE then iconForFile os src
                        else if sourceInterpretation = FILETYPE_SOURCE then iconForFileType os src
                        else None)
                 in case newImage of
                      None \<Rightarrow>
                        Inr (errorExit m (Some (''Unknown named NSImage.'' @ [CHR 0x0A]
                               @ ''Try omitting ImageName, ''
                               @ ''e.g. use NSCaution for NSImageNameCaution.'')))
                    | Some loaded \<Rightarrow>
                       (let sz = (sint (m_width m), sint (m_height m));
                            sized = setSize sz loaded;
                            light = sized;
                            dark = sized;
                            (light', dark') =
                              (if isTemplate dark
                               then (light, dark\<lparr>edits := edits dark @ [FillSourceAtop whiteColor sz]\<rparr>)
                               else if pressed m
                               then (TintImage light blackColor 0.2, TintImage dark whiteColor 0.5)
                               else (light, dark))
                        in Inr \<lparr>code = TCL_OK,
                                master = m\<lparr>image := Some light', darkModeImage := Some dark',
                                           flags := flags m AND NOT IMAGE_CHANGED\<rparr>,
                                message = None, changed = True\<rparr>)))))"

subsection \<open>\<open>TkNSImageGet\<close>, \<open>TkNSImageFree\<close> and \<open>TkNSImageDisplay\<close>\<close>

text \<open>
  The heap of masters and instances.  \<open>ckalloc\<close> hands out addresses that are not in use;
  \<open>next_addr\<close> is the next one, and every address at or above it is free.
\<close>

record 'c store =
  masters :: "addr \<rightharpoonup> 'c TkNSImageMaster"
  instances :: "addr \<rightharpoonup> 'c TkNSImageInstance"
  next_addr :: addr

definition TkNSImageGet :: "'c store \<Rightarrow> addr \<Rightarrow> 'c store \<times> addr" where
  "TkNSImageGet s clientData =
     (let instPtr = next_addr s
      in (s\<lparr>instances := (instances s)(instPtr \<mapsto>
                 \<lparr>masterPtr = clientData, inst_image = None, nextPtr = None\<rparr>),
            next_addr := Suc instPtr\<rparr>,
          instPtr))"

definition TkNSImageFree :: "'c store \<Rightarrow> addr \<Rightarrow> 'c store" where
  "TkNSImageFree s clientData = s\<lparr>instances := (instances s)(clientData := None)\<rparr>"

text \<open>
  The drawable that \<open>TkNSImageDisplay\<close> is given: its offsets, whether its window is in
  dark mode (\<open>TkMacOSXInDarkMode\<close>), whether \<open>TkMacOSXSetupDrawingContext\<close> succeeds and
  whether the drawing context it sets up has a graphics context.
\<close>

record MacDrawable =
  xOff :: cint
  yOff :: cint
  inDarkMode :: bool
  setupDrawingContext :: bool
  hasContext :: bool

text \<open>One \<open>drawInRect:fromRect:operation:fraction:\<close> message: the receiver and the arguments.\<close>

record 'c drawInRect =
  receiver :: "'c NSImage option"
  dstRect :: "cint \<times> cint \<times> cint \<times> cint"
  srcRect :: "cint \<times> cint \<times> cint \<times> cint"
  fraction :: real

definition TkNSImageDisplay ::
  "'c store \<Rightarrow> addr \<Rightarrow> MacDrawable \<Rightarrow> cint \<Rightarrow> cint \<Rightarrow> cint \<Rightarrow> cint \<Rightarrow> cint \<Rightarrow> cint
     \<Rightarrow> fault + 'c drawInRect list" where
  "TkNSImageDisplay s clientData macWin imageX imageY width' height' drawableX drawableY =
     (case instances s clientData of
        None \<Rightarrow> Inl NullPointer
      | Some instPtr \<Rightarrow>
         (case masters s (masterPtr instPtr) of
            None \<Rightarrow> Inl NullPointer
          | Some m \<Rightarrow>
             (let dst = (xOff macWin + drawableX, yOff macWin + drawableY, width', height');
                  src = (imageX, imageY, width', height');
                  img = (if inDarkMode macWin then darkModeImage m else image m)
              in Inr (if setupDrawingContext macWin \<and> hasContext macWin
                      then [\<lparr>receiver = img, dstRect = dst, srcRect = src, fraction = alpha m\<rparr>]
                      else []))))"

subsection \<open>A concrete system\<close>

text \<open>
  An operating system that knows one image under each interpretation, an option parser
  that stores nothing new, and the lookup of the Tcl library; a master as
  \<open>TkNSImageCreate\<close> and \<open>Tk_InitOptions\<close> leave it, with a given \<open>-source\<close> and \<open>-as\<close>.
  They are used to instantiate the theorems.
\<close>

definition example_icon :: "string \<Rightarrow> bool \<Rightarrow> string NSImage" where
  "example_icon what template =
     \<lparr>pixels = what, size_of = (16, 16), isTemplate = template, edits = []\<rparr>"

definition example_os :: "string Cocoa" where
  "example_os =
     \<lparr>imageNamed = (\<lambda>s. if s = ''NSCaution'' then Some (example_icon ''caution'' False)
                         else if s = ''NSAddTemplate'' then Some (example_icon ''add'' True)
                         else None),
      initWithContentsOfFile = (\<lambda>s. if s = ''0.png'' \<or> s = ''a.png''
                                     then Some (example_icon (''file '' @ s) False) else None),
      iconForFile = (\<lambda>s. Some (example_icon (''icon of '' @ s) False)),
      iconForFileType = (\<lambda>s. Some (example_icon (''type '' @ s) False))\<rparr>"

definition example_tk :: "string TclTk" where
  "example_tk =
     \<lparr>Tk_SetOptions = (\<lambda>m objv. Some m),
      Tk_GetOptionValue = (\<lambda>m name. if name = ''-as'' then the (as m) else []),
      Tcl_GetIndexFromObj = tcl_GetIndexFromObj\<rparr>"

definition example_master :: "string \<Rightarrow> string \<Rightarrow> bool \<Rightarrow> string TkNSImageMaster" where
  "example_master src interpretation press =
     \<lparr>m_width = 32, m_height = 32, alpha = 1, pressed = press, imageName = Some ''img'',
      source = Some src, as = Some interpretation, flags = 0, instancePtr = None,
      image = None, darkModeImage = None\<rparr>"

definition example_store :: "string store" where
  "example_store =
     \<lparr>masters = [0 \<mapsto> (example_master ''NSCaution'' ''name'' True)
                        \<lparr>image := Some (example_icon ''light'' False),
                         darkModeImage := Some (example_icon ''dark'' False)\<rparr>],
      instances = [1 \<mapsto> \<lparr>masterPtr = 0, inst_image = None, nextPtr = None\<rparr>],
      next_addr = 2\<rparr>"

definition example_window :: "bool \<Rightarrow> bool \<Rightarrow> MacDrawable" where
  "example_window dark ok =
     \<lparr>xOff = 10, yOff = 20, inDarkMode = dark, setupDrawingContext = ok, hasContext = ok\<rparr>"

subsection \<open>Named parts of \<open>TkNSImageConfigureMaster\<close>\<close>

text \<open>
  The \<open>switch\<close> over the interpretation and the branch that installs a loaded image,
  named so that the proofs can speak about them.
\<close>

definition resolve_source :: "'c Cocoa \<Rightarrow> nat \<Rightarrow> string \<Rightarrow> 'c NSImage option" where
  "resolve_source os sourceInterpretation src =
     (if sourceInterpretation = NAME_SOURCE then imageNamed os src
      else if sourceInterpretation = FILE_SOURCE then initWithContentsOfFile os src
      else if sourceInterpretation = PATH_SOURCE then iconForFile os src
      else if sourceInterpretation = FILETYPE_SOURCE then iconForFileType os src
      else None)"

definition variants :: "'c TkNSImageMaster \<Rightarrow> 'c NSImage \<Rightarrow> 'c NSImage \<times> 'c NSImage" where
  "variants m loaded =
     (let sz = (sint (m_width m), sint (m_height m)); sized = setSize sz loaded
      in if isTemplate sized
         then (sized, sized\<lparr>edits := edits sized @ [FillSourceAtop whiteColor sz]\<rparr>)
         else if pressed m
         then (TintImage sized blackColor 0.2, TintImage sized whiteColor 0.5)
         else (sized, sized))"

definition install_image :: "'c TkNSImageMaster \<Rightarrow> 'c NSImage \<Rightarrow> 'c configured" where
  "install_image m loaded =
     \<lparr>code = TCL_OK,
      master = m\<lparr>image := Some (fst (variants m loaded)),
                 darkModeImage := Some (snd (variants m loaded)),
                 flags := flags m AND NOT IMAGE_CHANGED\<rparr>,
      message = None, changed = True\<rparr>"

definition source_missing :: "'c TkNSImageMaster \<Rightarrow> bool" where
  "source_missing m \<longleftrightarrow>
     source m = None \<or> (case source m of Some (c # _) \<Rightarrow> c = CHR ''0'' | _ \<Rightarrow> False)"

section \<open>Printing: \<open>tkMacOSXPrint.c\<close>\<close>

text \<open>
  The two variables of file scope.  A string pointer is \<open>nil\<close> or \<open>NULL\<close> (\<open>None\<close>) or the
  path it holds; a URL is identified with the path it was made from.
\<close>

record print_globals =
  fileName :: "string option"
  urlFile :: "string option"

type_synonym OSStatus = cint

definition noErr :: OSStatus where "noErr = 0"

text \<open>Constants of AppKit (\<open>NSApplication.h\<close>) and Core Printing (\<open>PMDefinitions.h\<close>).\<close>

definition NSModalResponseOK :: cint where "NSModalResponseOK = 1"
definition NSModalResponseCancel :: cint where "NSModalResponseCancel = 0"

definition kPMDestinationInvalid :: u16 where "kPMDestinationInvalid = 0"
definition kPMDestinationPrinter :: u16 where "kPMDestinationPrinter = 1"
definition kPMDestinationFile :: u16 where "kPMDestinationFile = 2"
definition kPMDestinationFax :: u16 where "kPMDestinationFax = 3"
definition kPMDestinationPreview :: u16 where "kPMDestinationPreview = 4"
definition kPMDestinationProcessPDF :: u16 where "kPMDestinationProcessPDF = 5"

text \<open>What the two functions do to the outside world, in the order they do it.\<close>

datatype print_action =
    Tcl_WrongNumArgs string
  | NSLog string
  | CFRetain string
  | CFRelease string
  | PMPrinterPrintWithFile string string    \<comment> \<open>mime type, URL of the file\<close>
  | copyItemAtPath string string            \<comment> \<open>source path, target path\<close>
  | system string                           \<comment> \<open>the command line\<close>
  | openURL string
  | runAlert string string                  \<comment> \<open>message text, informative text\<close>
  | PMRelease

text \<open>
  The answers of the operating system during one call of \<open>FinishPrint\<close>: the status of
  each Core Printing call together with what it stores through its pointer argument, the
  file manager and \<open>pathExtension\<close>.  They are parameters.
\<close>

record PrintOS =
  PMCreateSession :: OSStatus
  PMCreatePrintSettings :: OSStatus
  PMSessionDefaultPrintSettings :: OSStatus
  PMSessionGetDestinationType :: "OSStatus \<times> u16"
  PMSessionGetCurrentPrinter :: OSStatus
  PMPrinterGetMimeTypes :: "OSStatus \<times> string list option"
  PMPrinterPrintWithFile_status :: OSStatus
  PMSessionCopyDestinationLocation :: "OSStatus \<times> string"
  pathExtension :: "string \<Rightarrow> string"
  fileExistsAtPath :: "string \<Rightarrow> bool"

text \<open>
  The command line that \<open>FinishPrint\<close> builds with \<open>strcpy\<close> and \<open>strcat\<close>.  The two paths
  are first copied into buffers of 5012 bytes with \<open>getCString:maxLength:\<close>, which fills
  the buffer only when the path and its final NUL fit; otherwise \<open>strcat\<close> reads a buffer
  that was never written.
\<close>

definition cups_command :: "string \<Rightarrow> string \<Rightarrow> fault + string" where
  "cups_command src target =
     (if length src < 5012 \<and> length target < 5012
      then Inr (''/usr/sbin/cupsfilter '' @ [CHR 0x22] @ src @ [CHR 0x22]
                @ '' -m application/postscript > '' @ [CHR 0x22] @ target @ [CHR 0x22])
      else Inl UninitialisedRead)"

text \<open>
  \<open>FinishPrint(file, buttonValue)\<close> returns its status, the globals as it leaves them and
  what it has done.  The variable \<open>status\<close> of the source is followed through its blocks:
  \<open>status0\<close> is its value after \<open>PMSessionGetDestinationType\<close>, \<open>status1\<close> and \<open>status2\<close>
  after the two calls in the block for the printer, and \<open>status3\<close> after the block for the
  file; each block either returns or leaves \<open>status\<close> to the next one.  The last test of
  the source, \<open>printDestination != kPMDestinationPreview || kPMDestinationFile ||
  kPMDestinationPrinter\<close>, is kept as it is written: the two constants are operands of
  \<open>||\<close>.
\<close>

definition FinishPrint ::
  "PrintOS \<Rightarrow> string option \<Rightarrow> cint \<Rightarrow> print_globals
     \<Rightarrow> fault + (OSStatus \<times> print_globals \<times> print_action list)" where
  "FinishPrint os file buttonValue g =
     (if buttonValue = NSModalResponseCancel then Inr (noErr, g, [])
      else if PMCreateSession os \<noteq> noErr
      then Inr (PMCreateSession os, g, [NSLog ''Error creating print session.''])
      else if PMCreatePrintSettings os \<noteq> noErr
      then Inr (PMCreatePrintSettings os, g, [NSLog ''Error creating print settings.''])
      else if PMSessionDefaultPrintSettings os \<noteq> noErr
      then Inr (PMSessionDefaultPrintSettings os, g, [NSLog ''Error creating default print settings.''])
      else if buttonValue = NSModalResponseOK then
        (case urlFile g of
           None \<Rightarrow> Inr (noErr, g, [NSLog ''Could not get file to print.''])
         | Some printURL \<Rightarrow>
            (let g1 = g\<lparr>fileName := file\<rparr>;
                 status0 = fst (PMSessionGetDestinationType os);
                 printDestination = snd (PMSessionGetDestinationType os);
                 toPrinter = (status0 = noErr \<and> printDestination = kPMDestinationPrinter);
                 status1 = (if toPrinter then PMSessionGetCurrentPrinter os else status0);
                 status2 = (if toPrinter \<and> status1 = noErr
                            then fst (PMPrinterGetMimeTypes os) else status1)
             in
             if toPrinter \<and> status1 = noErr \<and> status2 = noErr
                \<and> (case snd (PMPrinterGetMimeTypes os) of
                       None \<Rightarrow> False
                     | Some mimeTypes \<Rightarrow> ''application/pdf'' \<in> set mimeTypes)
             then Inr (PMPrinterPrintWithFile_status os, g1,
                       [PMPrinterPrintWithFile ''application/pdf'' printURL, CFRelease printURL])
             else if status2 = noErr \<and> printDestination = kPMDestinationFile
                     \<and> fst (PMSessionCopyDestinationLocation os) = noErr
             then
               (let sourcePath = printURL;
                    finalPath = snd (PMSessionCopyDestinationLocation os);
                    ext = pathExtension os finalPath;
                    copied = (if ext = ''pdf'' \<and> fileExistsAtPath os sourcePath
                              then [copyItemAtPath sourcePath finalPath] else [])
                in if ext = ''ps''
                   then (case cups_command sourcePath finalPath of
                           Inl e \<Rightarrow> Inl e
                         | Inr cmd \<Rightarrow> Inr (noErr, g1, copied @ [system cmd]))
                   else Inr (noErr, g1, copied))
             else
               (let status3 = (if status2 = noErr \<and> printDestination = kPMDestinationFile
                               then fst (PMSessionCopyDestinationLocation os) else status2)
                in if status3 = noErr \<and> printDestination = kPMDestinationPreview
                   then Inr (noErr, g1, [openURL printURL])
                   else if status3 = noErr
                           \<and> (printDestination \<noteq> kPMDestinationPreview
                                \<or> kPMDestinationFile \<noteq> 0 \<or> kPMDestinationPrinter \<noteq> 0)
                   then Inr (status3, g1,
                             [runAlert ''Unsupported Printing Operation''
                                       ''This printing operation is not supported.''])
                   else Inr (status3, g1, []))))
      else Inr (PMSessionDefaultPrintSettings os, g, []))"

text \<open>
  The answers of the operating system to \<open>StartPrint\<close> itself: the conversion of the
  argument to a string object (\<open>nil\<close> for bytes that are not UTF-8), its own three Core
  Printing calls, and the button the print panel ends with.
\<close>

record StartOS =
  stringWithUTF8String :: "string \<Rightarrow> string option"
  start_PMCreateSession :: OSStatus
  start_PMCreatePrintSettings :: OSStatus
  start_PMSessionDefaultPrintSettings :: OSStatus
  runModalWithPrintInfo :: cint

text \<open>
  \<open>StartPrint\<close> with the words of the command in \<open>objv\<close> (\<open>objc\<close> is their number).  It
  returns its Tcl code, the globals and what was done; the status of \<open>FinishPrint\<close> is
  dropped, as in the source.  \<open>CFRetain\<close> of \<open>NULL\<close> is a fault.
\<close>

definition StartPrint ::
  "StartOS \<Rightarrow> PrintOS \<Rightarrow> string list \<Rightarrow> print_globals
     \<Rightarrow> fault + (tcl_code \<times> print_globals \<times> print_action list)" where
  "StartPrint sos os objv g =
     (if length objv < 2 then Inr (TCL_ERROR, g, [Tcl_WrongNumArgs ''file''])
      else
        (let g1 = \<lparr>fileName = stringWithUTF8String sos (objv ! 1),
                   urlFile = stringWithUTF8String sos (objv ! 1)\<rparr>
         in case urlFile g1 of
              None \<Rightarrow> Inl NullPointer
            | Some retained \<Rightarrow>
               (if start_PMCreateSession sos \<noteq> noErr
                then Inr (TCL_ERROR, g1, [CFRetain retained, NSLog ''Error creating print session.''])
                else if start_PMCreatePrintSettings sos \<noteq> noErr
                then Inr (TCL_ERROR, g1, [CFRetain retained, NSLog ''Error creating print settings.''])
                else if start_PMSessionDefaultPrintSettings sos \<noteq> noErr
                then Inr (TCL_ERROR, g1,
                          [CFRetain retained, NSLog ''Error creating default print settings.''])
                else
                  (case FinishPrint os (fileName g1) (runModalWithPrintInfo sos) g1 of
                     Inl e \<Rightarrow> Inl e
                   | Inr (status, g2, acts) \<Rightarrow> Inr (TCL_OK, g2, CFRetain retained # acts)))))"

subsection \<open>A concrete print system\<close>

text \<open>
  An operating system in which every call succeeds, with a chosen destination, a chosen
  list of mime types of the printer and a chosen output path; used to instantiate the
  theorems.
\<close>

definition example_print_os :: "u16 \<Rightarrow> string list \<Rightarrow> string \<Rightarrow> PrintOS" where
  "example_print_os dest mimes out =
     \<lparr>PMCreateSession = noErr, PMCreatePrintSettings = noErr,
      PMSessionDefaultPrintSettings = noErr,
      PMSessionGetDestinationType = (noErr, dest),
      PMSessionGetCurrentPrinter = noErr,
      PMPrinterGetMimeTypes = (noErr, Some mimes),
      PMPrinterPrintWithFile_status = noErr,
      PMSessionCopyDestinationLocation = (noErr, out),
      pathExtension = (\<lambda>p. rev (takeWhile (\<lambda>c. c \<noteq> CHR ''.'') (rev p))),
      fileExistsAtPath = (\<lambda>p. True)\<rparr>"

definition example_start_os :: "cint \<Rightarrow> StartOS" where
  "example_start_os button =
     \<lparr>stringWithUTF8String = Some, start_PMCreateSession = noErr,
      start_PMCreatePrintSettings = noErr, start_PMSessionDefaultPrintSettings = noErr,
      runModalWithPrintInfo = button\<rparr>"

definition no_job :: print_globals where
  "no_job = \<lparr>fileName = None, urlFile = None\<rparr>"

section \<open>Pixel access: memory and bit lemmas\<close>

lemma cat32_bytes:
  "cat32 (ucast v) (ucast (drop_bit 8 v)) (ucast (drop_bit 16 v)) (ucast (drop_bit 24 v)) = (v :: cuint)"
  unfolding cat32_def
proof (rule bit_word_eqI)
  fix n assume "n < LENGTH(32)"
  then consider "n < 8" | "8 \<le> n" "n < 16" | "16 \<le> n" "n < 24" | "24 \<le> n" "n < 32"
    by fastforce
  then show "bit (ucast (ucast v :: u8) OR push_bit 8 (ucast (ucast (drop_bit 8 v) :: u8))
       OR push_bit 16 (ucast (ucast (drop_bit 16 v) :: u8)) OR push_bit 24 (ucast (ucast (drop_bit 24 v) :: u8)) :: cuint) n = bit v n"
    by cases (auto simp: bit_simps)
qed

lemma cat16_bytes:
  "cat16 (ucast v) (ucast (drop_bit 8 v)) = (v :: u16)"
  unfolding cat16_def
  by (rule bit_word_eqI) (auto simp: bit_simps)

lemma load32_store32:
  "in_buf d off 4 \<Longrightarrow> \<exists>d'. store32 be d off v = Inr d' \<and> length d' = length d \<and> load32 be d' off = Inr v"
  by (auto simp: store32_def load32_def in_buf_def Let_def cat32_bytes nth_list_update split: if_splits)

lemma load16_store16:
  "in_buf d off 2 \<Longrightarrow> \<exists>d'. store16 be d off v = Inr d' \<and> length d' = length d \<and> load16 be d' off = Inr v"
  by (auto simp: store16_def load16_def in_buf_def Let_def cat16_bytes nth_list_update split: if_splits)

lemma load8_store8:
  "in_buf d off 1 \<Longrightarrow> \<exists>d'. store8 d off v = Inr d' \<and> length d' = length d \<and> load8 d' off = Inr v"
  by (auto simp: store8_def load8_def in_buf_def split: if_splits)

lemma mask_ff: "(0xff :: 'a::len word) = mask 8"
  by (simp add: mask_eq_exp_minus_1)
lemma mask_f8: "(0xf8 :: 'a::len word) = push_bit 3 (mask 5)"
  by (simp add: mask_eq_exp_minus_1 push_bit_eq_mult)
lemma mask_c0: "(0xc0 :: 'a::len word) = push_bit 6 (mask 2)"
  by (simp add: mask_eq_exp_minus_1 push_bit_eq_mult)
lemma mask_80: "(0x80 :: 'a::len word) = push_bit 7 1"
  by (simp add: push_bit_eq_mult)
lemma mask_f0: "(0xf0 :: 'a::len word) = push_bit 4 (mask 4)"
  by (simp add: mask_eq_exp_minus_1 push_bit_eq_mult)
lemma mask_0f: "(0x0f :: 'a::len word) = mask 4"
  by (simp add: mask_eq_exp_minus_1)
lemmas cmasks = mask_ff mask_f8 mask_c0 mask_80 mask_f0 mask_0f

lemma put_get_32:
  assumes "data im = Some d" "bits_per_pixel im = 32" "in_buf d (pixel_offset im x y) 4"
  shows "\<exists>d'. ImagePutPixel be (Some im) x y p = Inr (Some (im\<lparr>data := Some d'\<rparr>), 0)
     \<and> length d' = length d
     \<and> ImageGetPixel_rgb be (Some (im\<lparr>data := Some d'\<rparr>)) x y = Inr (red_of p, green_of p, blue_of p)"
proof -
  from load32_store32[OF assms(3), of be "ucast p"] obtain d' where
    d': "store32 be d (pixel_offset im x y) (ucast p) = Inr d'" "length d' = length d"
     "load32 be d' (pixel_offset im x y) = Inr (ucast p)" by blast
  have po: "pixel_offset (im\<lparr>data := Some d'\<rparr>) x y = pixel_offset im x y"
    by (simp add: pixel_offset_def)
  have r: "(ucast (drop_bit 16 (ucast p :: cuint) AND 0xff) :: u8) = red_of p"
    unfolding cmasks red_of_def by (rule bit_word_eqI) (auto simp: bit_simps)
  have g: "(ucast (drop_bit 8 (ucast p :: cuint) AND 0xff) :: u8) = green_of p"
    unfolding cmasks green_of_def by (rule bit_word_eqI) (auto simp: bit_simps)
  have b: "(ucast ((ucast p :: cuint) AND 0xff) :: u8) = blue_of p"
    unfolding cmasks blue_of_def by (rule bit_word_eqI) (auto simp: bit_simps)
  show ?thesis
    apply (rule exI[of _ d'])
    using assms(1,2) d' by (simp add: ImagePutPixel_def ImageGetPixel_rgb_def po r g b)
qed

lemma mask_red: "(0x00FF0000 :: ulong) = push_bit 16 (mask 8)"
  by (simp add: mask_eq_exp_minus_1 push_bit_eq_mult)
lemma mask_green: "(0x0000FF00 :: ulong) = push_bit 8 (mask 8)"
  by (simp add: mask_eq_exp_minus_1 push_bit_eq_mult)

lemma put_red: "(ucast (drop_bit 16 (p AND 0x00FF0000) AND (0xff::ulong)) :: u8) = red_of p"
  unfolding mask_red mask_ff red_of_def by (rule bit_word_eqI) (auto simp: bit_simps)
lemma put_green: "(ucast (drop_bit 8 (p AND 0x0000FF00) AND (0xff::ulong)) :: u8) = green_of p"
  unfolding mask_green mask_ff green_of_def by (rule bit_word_eqI) (auto simp: bit_simps)
lemma put_blue: "(ucast ((p AND 0x000000FF) AND (0xff::ulong)) :: u8) = blue_of p"
  unfolding mask_ff blue_of_def by (rule bit_word_eqI) (auto simp: bit_simps)

lemma put_rgb_default:
  assumes "default_masks im"
  shows "put_r im p = red_of p" "put_g im p = green_of p" "put_b im p = blue_of p"
  using assms put_red[of p] put_green[of p] put_blue[of p]
  by (simp_all only: put_r_def put_g_def put_b_def default_masks_def)

lemma u8_eqI:
  fixes a b :: u8
  assumes "bit a 0 = bit b 0" "bit a 1 = bit b 1" "bit a 2 = bit b 2" "bit a 3 = bit b 3"
    "bit a 4 = bit b 4" "bit a 5 = bit b 5" "bit a 6 = bit b 6" "bit a 7 = bit b 7"
  shows "a = b"
proof (rule bit_word_eqI)
  fix n assume "n < LENGTH(8)"
  then have "n \<in> {0, 1, 2, 3, 4, 5, 6, 7}" by auto
  with assms show "bit a n = bit b n" by auto
qed

lemma u8_bit_high: "8 \<le> n \<Longrightarrow> bit (a :: u8) n = False"
  using bit_imp_le_length[of a n] by auto

lemma get16_r: "(ucast (drop_bit 7 (ucast (pack16 r g b) :: cint) AND 0xf8) :: u8) = r AND 0xf8"
  unfolding pack16_def cmasks by (rule u8_eqI) (simp_all add: bit_simps)
lemma get16_g: "(ucast (drop_bit 2 (ucast (pack16 r g b) :: cint) AND 0xf8) :: u8) = g AND 0xf8"
  unfolding pack16_def cmasks by (rule u8_eqI) (simp_all add: bit_simps)
lemma get16_b: "(ucast (push_bit 3 (ucast (pack16 r g b) :: cint) AND 0xf8) :: u8) = b AND 0xf8"
  unfolding pack16_def cmasks by (rule u8_eqI) (simp_all add: bit_simps)

lemma get8_r: "(ucast (push_bit 2 (ucast (pack8 r g b) :: cint) AND 0xc0) :: u8) = r AND 0xc0"
  unfolding pack8_def cmasks by (rule u8_eqI) (simp_all add: bit_simps)
lemma get8_g: "(ucast (push_bit 4 (ucast (pack8 r g b) :: cint) AND 0xc0) :: u8) = g AND 0xc0"
  unfolding pack8_def cmasks by (rule u8_eqI) (simp_all add: bit_simps)
lemma get8_b: "(ucast (push_bit 6 (ucast (pack8 r g b) :: cint) AND 0xc0) :: u8) = b AND 0xc0"
  unfolding pack8_def cmasks by (rule u8_eqI) (simp_all add: bit_simps)

lemma agree_f8: "agree_top 5 (a AND 0xf8) a"
  unfolding agree_top_def cmasks by (rule u8_eqI) (simp_all add: bit_simps u8_bit_high)

lemma agree_c0: "agree_top 2 (c OR (drop_bit 2 c OR drop_bit 4 c OR drop_bit 6 c)) a" if "c = a AND 0xc0"
  unfolding agree_top_def cmasks that by (rule u8_eqI) (simp_all add: bit_simps u8_bit_high)

lemma agree_80: "agree_top 1 (if t then 0xff else 0) a" if "t \<longleftrightarrow> bit a 7"
proof -
  have "(0xff :: u8) = mask 8" by (simp add: mask_eq_exp_minus_1)
  then show ?thesis
  unfolding agree_top_def  using that by (auto intro!: u8_eqI simp add: bit_simps u8_bit_high)
qed

lemma and_bit_test:
  fixes c :: "'a::len word"
  shows "c AND 4 \<noteq> 0 \<longleftrightarrow> bit c 2" "c AND 2 \<noteq> 0 \<longleftrightarrow> bit c 1" "c AND 1 \<noteq> 0 \<longleftrightarrow> bit c 0"
  using bit_iff_and_push_bit_not_eq_0[of c 2] bit_iff_and_push_bit_not_eq_0[of c 1]
    bit_iff_and_push_bit_not_eq_0[of c 0]
  by simp_all

lemma get4_bits:
  "bit (if od then merge4 od old (pack4 r g b) else drop_bit 4 (merge4 od old (pack4 r g b))) 2 = bit r 7"
  "bit (if od then merge4 od old (pack4 r g b) else drop_bit 4 (merge4 od old (pack4 r g b))) 1 = bit g 7"
  "bit (if od then merge4 od old (pack4 r g b) else drop_bit 4 (merge4 od old (pack4 r g b))) 0 = bit b 7"
  unfolding merge4_def pack4_def cmasks by (simp_all add: bit_simps)

lemma sint_mult_exact:
  fixes a b :: cint
  assumes "- 2147483648 \<le> sint a * sint b" "sint a * sint b < 2147483648"
  shows "sint (a * b) = sint a * sint b"
  using assms by (simp add: sint_word_ariths signed_take_bit_int_eq_self)

lemma sint_add_exact:
  fixes a b :: cint
  assumes "- 2147483648 \<le> sint a + sint b" "sint a + sint b < 2147483648"
  shows "sint (a + b) = sint a + sint b"
  using assms by (simp add: sint_word_ariths signed_take_bit_int_eq_self)

lemma c_div_nonneg: "0 \<le> a \<Longrightarrow> 0 < b \<Longrightarrow> c_div a b = a div b"
  by (cases "a = 0") (simp_all add: c_div_def)

lemma pixel_offset_exact:
  assumes ok: "image_ok im" and rg: "in_range im x y"
  shows "pixel_offset im x y =
     sint y * sint (bytes_per_line im)
     + ((sint (xoffset im) + sint x) * sint (bits_per_pixel im)) div 8"
proof -
  obtain d where d: "data im = Some d" using ok by (auto simp: image_ok_def split: option.splits)
  let ?L = "sint (bytes_per_line im)" and ?H = "sint (height im)" and ?W = "sint (width im)"
  let ?X = "sint (xoffset im)" and ?B = "sint (bits_per_pixel im)"
  from ok d have h: "0 \<le> ?X" "0 \<le> ?W" "0 \<le> ?H" "0 \<le> ?L" "0 < ?B"
     "(?X + ?W) * ?B \<le> 8 * ?L" "?L * ?H \<le> int (length d)" "?L * ?H < 2147483648" "(?X + ?W) * ?B < 2147483648"
    by (simp_all add: image_ok_def)
  from rg have r: "0 \<le> sint x" "sint x < ?W" "0 \<le> sint y" "sint y < ?H"
    by (simp_all add: in_range_def)
  have yl: "sint y * ?L \<le> ?H * ?L" using r h by (intro mult_right_mono) auto
  have yl0: "0 \<le> sint y * ?L" using r h by simp
  have "sint y * ?L < 2147483648" using yl h(8) by (simp add: mult.commute)
  moreover have "- 2147483648 \<le> sint y * ?L" using yl0 by linarith
  ultimately have 1: "sint (y * bytes_per_line im) = sint y * ?L"
    by (rule sint_mult_exact[rotated])
  have xb: "(?X + sint x) * ?B \<le> (?X + ?W) * ?B" using r h by (intro mult_right_mono) auto
  have xb0: "0 \<le> (?X + sint x) * ?B" using r h by simp
  have "?X + sint x \<le> (?X + sint x) * ?B" using h r by (simp add: mult_le_cancel_left1)
  with xb h(9) have "?X + sint x < 2147483648" by linarith
  moreover have "- 2147483648 \<le> ?X + sint x" using h r by simp
  ultimately have 2: "sint (xoffset im + x) = ?X + sint x"
    by (intro sint_add_exact)
  have "(?X + sint x) * ?B < 2147483648" using xb h(9) by linarith
  moreover have "- 2147483648 \<le> (?X + sint x) * ?B" using xb0 by linarith
  ultimately have 3: "sint ((xoffset im + x) * bits_per_pixel im) = (?X + sint x) * ?B"
    using sint_mult_exact[of "xoffset im + x" "bits_per_pixel im"] unfolding 2 by blast
  show ?thesis
    unfolding pixel_offset_def 1 3 NBBY_def using xb0 by (simp add: c_div_nonneg)
qed

lemma in_range_in_buf:
  assumes ok: "image_ok im" and rg: "in_range im x y" and d: "data im = Some d"
    and bpp: "bits_per_pixel im = b" "b = 32 \<or> b = 16 \<or> b = 8 \<or> b = 4 \<or> b = 1"
  shows "in_buf d (pixel_offset im x y) (if b = 32 then 4 else if b = 16 then 2 else 1)"
proof -
  let ?L = "sint (bytes_per_line im)" and ?H = "sint (height im)" and ?W = "sint (width im)"
  let ?X = "sint (xoffset im)" and ?B = "sint (bits_per_pixel im)"
  from ok d have h: "0 \<le> ?X" "0 \<le> ?W" "0 \<le> ?H" "0 \<le> ?L" "0 < ?B"
     "(?X + ?W) * ?B \<le> 8 * ?L" "?L * ?H \<le> int (length d)" "?L * ?H < 2147483648" "(?X + ?W) * ?B < 2147483648"
    by (simp_all add: image_ok_def)
  from rg have r: "0 \<le> sint x" "sint x < ?W" "0 \<le> sint y" "sint y < ?H"
    by (simp_all add: in_range_def)
  have "(sint y + 1) * ?L \<le> ?H * ?L" using r h by (intro mult_right_mono) auto
  then have yl: "sint y * ?L + ?L \<le> int (length d)" using h by (simp add: algebra_simps)
  have yl0: "0 \<le> sint y * ?L" using r h by simp
  have xb: "(?X + sint x + 1) * ?B \<le> (?X + ?W) * ?B" using r h by (intro mult_right_mono) auto
  then have xb': "(?X + sint x) * ?B + ?B \<le> 8 * ?L" using h by (simp add: algebra_simps)
  have xb0: "0 \<le> (?X + sint x) * ?B" using r h by simp
  from bpp have "?B = 32 \<or> ?B = 16 \<or> ?B = 8 \<or> ?B = 4 \<or> ?B = 1" by auto
  then have "((?X + sint x) * ?B) div 8 + (if b = 32 then 4 else if b = 16 then 2 else 1) \<le> ?L"
    using xb' bpp by auto
  moreover have "0 \<le> ((?X + sint x) * ?B) div 8" using xb0 by simp
  ultimately show ?thesis
    unfolding in_buf_def pixel_offset_exact[OF ok rg] using yl yl0 by auto
qed

lemma put_get_16:
  assumes "data im = Some d" "bits_per_pixel im = 16" "default_masks im"
    "in_buf d (pixel_offset im x y) 2"
  shows "\<exists>d'. ImagePutPixel be (Some im) x y p = Inr (Some (im\<lparr>data := Some d'\<rparr>), 0)
     \<and> length d' = length d
     \<and> ImageGetPixel_rgb be (Some (im\<lparr>data := Some d'\<rparr>)) x y
         = Inr (red_of p AND 0xf8, green_of p AND 0xf8, blue_of p AND 0xf8)"
proof -
  note ch = put_rgb_default[OF assms(3), of p, symmetric]
  let ?v = "pack16 (red_of p) (green_of p) (blue_of p)"
  from load16_store16[OF assms(4), of be ?v] obtain d' where
    d': "store16 be d (pixel_offset im x y) ?v = Inr d'" "length d' = length d"
     "load16 be d' (pixel_offset im x y) = Inr ?v" by blast
  have po: "pixel_offset (im\<lparr>data := Some d'\<rparr>) x y = pixel_offset im x y"
    by (simp add: pixel_offset_def)
  have put: "ImagePutPixel be (Some im) x y p = Inr (Some (im\<lparr>data := Some d'\<rparr>), 0)"
    using assms(1,2) d'(1) unfolding ch
    by (simp add: ImagePutPixel_def pack16_def put_r_def put_g_def put_b_def)
  have get: "ImageGetPixel_rgb be (Some (im\<lparr>data := Some d'\<rparr>)) x y
         = Inr (red_of p AND 0xf8, green_of p AND 0xf8, blue_of p AND 0xf8)"
    using assms(2) d'(3) by (simp add: ImageGetPixel_rgb_def po get16_r get16_g get16_b)
  show ?thesis using put get d'(2) by blast
qed

lemma put_get_8:
  assumes "data im = Some d" "bits_per_pixel im = 8" "default_masks im"
    "in_buf d (pixel_offset im x y) 1"
  shows "\<exists>d' r g b. ImagePutPixel be (Some im) x y p = Inr (Some (im\<lparr>data := Some d'\<rparr>), 0)
     \<and> length d' = length d
     \<and> ImageGetPixel_rgb be (Some (im\<lparr>data := Some d'\<rparr>)) x y = Inr (r, g, b)
     \<and> agree_top 2 r (red_of p) \<and> agree_top 2 g (green_of p) \<and> agree_top 2 b (blue_of p)"
proof -
  note ch = put_rgb_default[OF assms(3), of p, symmetric]
  let ?v = "pack8 (red_of p) (green_of p) (blue_of p)"
  from load8_store8[OF assms(4), of ?v] obtain d' where
    d': "store8 d (pixel_offset im x y) ?v = Inr d'" "length d' = length d"
     "load8 d' (pixel_offset im x y) = Inr ?v" by blast
  have po: "pixel_offset (im\<lparr>data := Some d'\<rparr>) x y = pixel_offset im x y"
    by (simp add: pixel_offset_def)
  have put: "ImagePutPixel be (Some im) x y p = Inr (Some (im\<lparr>data := Some d'\<rparr>), 0)"
    using assms(1,2) d'(1) unfolding ch
    by (simp add: ImagePutPixel_def pack8_def put_r_def put_g_def put_b_def)
  let ?r = "red_of p AND 0xc0" and ?g = "green_of p AND 0xc0" and ?b = "blue_of p AND 0xc0"
  have get: "ImageGetPixel_rgb be (Some (im\<lparr>data := Some d'\<rparr>)) x y
         = Inr (?r OR (drop_bit 2 ?r OR drop_bit 4 ?r OR drop_bit 6 ?r),
                ?g OR (drop_bit 2 ?g OR drop_bit 4 ?g OR drop_bit 6 ?g),
                ?b OR (drop_bit 2 ?b OR drop_bit 4 ?b OR drop_bit 6 ?b))"
    using assms(2) d'(3) by (simp add: ImageGetPixel_rgb_def po get8_r get8_g get8_b)
  show ?thesis using put get d'(2) agree_c0[OF refl] by blast
qed

lemma put_get_4:
  assumes "data im = Some d" "bits_per_pixel im = 4" "default_masks im"
    "in_buf d (pixel_offset im x y) 1"
  shows "\<exists>d' r g b. ImagePutPixel be (Some im) x y p = Inr (Some (im\<lparr>data := Some d'\<rparr>), 0)
     \<and> length d' = length d
     \<and> ImageGetPixel_rgb be (Some (im\<lparr>data := Some d'\<rparr>)) x y = Inr (r, g, b)
     \<and> agree_top 1 r (red_of p) \<and> agree_top 1 g (green_of p) \<and> agree_top 1 b (blue_of p)"
proof -
  note ch = put_rgb_default[OF assms(3), of p, symmetric]
  let ?off = "pixel_offset im x y"
  let ?od = "c_rem (sint x) 2 \<noteq> 0"
  let ?old = "d ! nat ?off"
  let ?v = "merge4 ?od ?old (pack4 (red_of p) (green_of p) (blue_of p))"
  have old: "load8 d ?off = Inr ?old" using assms(4) by (simp add: load8_def)
  from load8_store8[OF assms(4), of ?v] obtain d' where
    d': "store8 d ?off ?v = Inr d'" "length d' = length d"
     "load8 d' ?off = Inr ?v" by blast
  have po: "pixel_offset (im\<lparr>data := Some d'\<rparr>) x y = pixel_offset im x y"
    by (simp add: pixel_offset_def)
  have put: "ImagePutPixel be (Some im) x y p = Inr (Some (im\<lparr>data := Some d'\<rparr>), 0)"
    using assms(1,2) d'(1) old unfolding ch
    by (simp add: ImagePutPixel_def pack4_def merge4_def put_r_def put_g_def put_b_def)
  let ?c = "if ?od then ?v else drop_bit 4 ?v"
  have get: "ImageGetPixel_rgb be (Some (im\<lparr>data := Some d'\<rparr>)) x y
         = Inr (if ?c AND 0x04 \<noteq> 0 then 0xff else 0,
                if ?c AND 0x02 \<noteq> 0 then 0xff else 0,
                if ?c AND 0x01 \<noteq> 0 then 0xff else 0)"
    using assms(2) d'(3) by (simp add: ImageGetPixel_rgb_def po)
  have bits: "?c AND 0x04 \<noteq> 0 \<longleftrightarrow> bit (red_of p) 7" "?c AND 0x02 \<noteq> 0 \<longleftrightarrow> bit (green_of p) 7"
     "?c AND 0x01 \<noteq> 0 \<longleftrightarrow> bit (blue_of p) 7"
    unfolding and_bit_test get4_bits by simp_all
  show ?thesis using put get d'(2) agree_80[OF bits(1)] agree_80[OF bits(2)] agree_80[OF bits(3)] by blast
qed

section \<open>Put-then-get is a truncating round trip\<close>

text \<open>
  Claim C1.  For an image with the default channel masks and a depth of 32, 16, 8 or 4
  bits per pixel, and every in-range coordinate \<open>(x, y)\<close> of a well-formed image,
  \<open>ImagePutPixel(image, x, y, p)\<close> succeeds, and \<open>ImageGetPixel(image, x, y)\<close> on the
  image it has written computes red, green and blue bytes that agree with the red, green
  and blue bytes of \<open>p\<close> on their top 8, 5, 2 and 1 bits respectively; these are the
  bytes it passes to \<open>TkMacOSXRGBPixel\<close>.
\<close>

theorem put_get_round_trip:
  assumes "image_ok im" "default_masks im" "in_range im x y"
    and "bits_per_pixel im \<in> {32, 16, 8, 4}"
  shows "\<exists>im' r g b.
           ImagePutPixel be (Some im) x y p = Inr (Some im', 0)
         \<and> ImageGetPixel_rgb be (Some im') x y = Inr (r, g, b)
         \<and> ImageGetPixel rgbpixel be (Some im') x y = Inr (rgbpixel r g b)
         \<and> agree_top (channel_bits (bits_per_pixel im)) r (red_of p)
         \<and> agree_top (channel_bits (bits_per_pixel im)) g (green_of p)
         \<and> agree_top (channel_bits (bits_per_pixel im)) b (blue_of p)"
proof -
  obtain d where d: "data im = Some d"
    using assms(1) by (auto simp: image_ok_def split: option.splits)
  have buf: "bits_per_pixel im = c \<Longrightarrow> c = 32 \<or> c = 16 \<or> c = 8 \<or> c = 4 \<or> c = 1 \<Longrightarrow>
      in_buf d (pixel_offset im x y) (if c = 32 then 4 else if c = 16 then 2 else 1)" for c
    using in_range_in_buf[OF assms(1,3) d] by blast
  have full: "ImageGetPixel rgbpixel be i x y = Inr (rgbpixel r g b)"
    if "ImageGetPixel_rgb be i x y = Inr (r, g, b)" for i r g b
    using that by (simp add: ImageGetPixel_def)
  have same: "agree_top 8 a a" for a by (simp add: agree_top_def)
  from assms(4) consider "bits_per_pixel im = 32" | "bits_per_pixel im = 16"
    | "bits_per_pixel im = 8" | "bits_per_pixel im = 4" by auto
  then show ?thesis
  proof cases
    case 1
    with buf[of 32] have "in_buf d (pixel_offset im x y) 4" by simp
    from put_get_32[OF d 1 this, of be p] 1 show ?thesis
      by (auto simp: channel_bits_def same dest: full)
  next
    case 2
    with buf[of 16] have "in_buf d (pixel_offset im x y) 2" by simp
    from put_get_16[OF d 2 assms(2) this, of be p] 2 show ?thesis
      by (auto simp: channel_bits_def agree_f8 dest: full)
  next
    case 3
    with buf[of 8] have "in_buf d (pixel_offset im x y) 1" by simp
    from put_get_8[OF d 3 assms(2) this, of be p] 3 show ?thesis
      by (auto simp: channel_bits_def dest: full)
  next
    case 4
    with buf[of 4] have "in_buf d (pixel_offset im x y) 1" by simp
    from put_get_4[OF d 4 assms(2) this, of be p] 4 show ?thesis
      by (auto simp: channel_bits_def dest: full)
  qed
qed

theorem put_get_round_trip_witness:
  "image_ok (example_image 16 (replicate 16 0)) \<and> default_masks (example_image 16 (replicate 16 0))
   \<and> in_range (example_image 16 (replicate 16 0)) 1 1
   \<and> bits_per_pixel (example_image 16 (replicate 16 0)) \<in> {32, 16, 8, 4}
   \<and> (\<exists>im' r g b.
           ImagePutPixel False (Some (example_image 16 (replicate 16 0))) 1 1 0x123456 = Inr (Some im', 0)
         \<and> ImageGetPixel_rgb False (Some im') 1 1 = Inr (r, g, b)
         \<and> ImageGetPixel example_RGBPixel False (Some im') 1 1 = Inr (example_RGBPixel r g b)
         \<and> agree_top 5 r (red_of 0x123456)
         \<and> agree_top 5 g (green_of 0x123456)
         \<and> agree_top 5 b (blue_of 0x123456))"
proof -
  let ?im = "example_image 16 (replicate 16 0)"
  have h: "image_ok ?im" "default_masks ?im" "in_range ?im 1 1" "bits_per_pixel ?im \<in> {32, 16, 8, 4}"
    by (simp_all add: image_ok_def default_masks_def in_range_def example_image_def)
  have c: "channel_bits (bits_per_pixel ?im) = 5" by (simp add: channel_bits_def example_image_def)
  from put_get_round_trip[OF h, of False "0x123456" example_RGBPixel] h show ?thesis
    unfolding c by blast
qed

section \<open>Missing image, missing buffer, unsupported depth\<close>

text \<open>
  Claim C10.  For every coordinate \<open>(x, y)\<close>: if the image pointer is \<open>NULL\<close>, or the
  image's data pointer is \<open>NULL\<close>, or \<open>bits_per_pixel\<close> is not one of 1, 4, 8, 16, 32,
  then \<open>ImageGetPixel\<close> returns \<open>TkMacOSXRGBPixel(0, 0, 0)\<close> and reads no buffer (the
  result is a value, never a fault); and \<open>ImagePutPixel\<close> leaves the image as it is
  when the image or its data pointer is \<open>NULL\<close>.
\<close>

theorem null_image_defaults:
  "((case img of None \<Rightarrow> True
     | Some im \<Rightarrow> data im = None \<or> bits_per_pixel im \<notin> {1, 4, 8, 16, 32})
    \<longrightarrow> ImageGetPixel rgbpixel be img x y = Inr (rgbpixel 0 0 0))
   \<and> ((case img of None \<Rightarrow> True | Some im \<Rightarrow> data im = None)
    \<longrightarrow> ImagePutPixel be img x y p = Inr (img, 0))"
  by (auto simp: ImageGetPixel_def ImageGetPixel_rgb_def ImagePutPixel_def Let_def
      split: option.splits)

theorem null_image_defaults_witness:
  "(data ((example_image 7 [])\<lparr>data := None\<rparr>) = None
      \<and> ImageGetPixel example_RGBPixel True (Some ((example_image 7 [])\<lparr>data := None\<rparr>)) 5 (- 3)
          = Inr (example_RGBPixel 0 0 0)
      \<and> ImagePutPixel True (Some ((example_image 7 [])\<lparr>data := None\<rparr>)) 5 (- 3) 0xFFFFFF
          = Inr (Some ((example_image 7 [])\<lparr>data := None\<rparr>), 0))
   \<and> (bits_per_pixel (example_image 24 [1, 2, 3]) \<notin> {1, 4, 8, 16, 32}
      \<and> ImageGetPixel example_RGBPixel False (Some (example_image 24 [1, 2, 3])) 0 0
          = Inr (example_RGBPixel 0 0 0))
   \<and> (ImageGetPixel example_RGBPixel False None 0 0 = Inr (example_RGBPixel 0 0 0)
      \<and> ImagePutPixel False None 0 0 1 = Inr (None, 0))"
  using null_image_defaults[of "Some ((example_image 7 [])\<lparr>data := None\<rparr>)" example_RGBPixel True 5 "- 3" "0xFFFFFF"]
    null_image_defaults[of "Some (example_image 24 [1, 2, 3])" example_RGBPixel False 0 0 0]
    null_image_defaults[of None example_RGBPixel False 0 0 1]
  by (simp add: example_image_def)

section \<open>The conversion rule of \<open>ImageGetPixel\<close>\<close>

lemma unat_field:
  fixes w :: "'a::len word"
  shows "unat (take_bit n (drop_bit lo w)) = bit_field (unat w) lo n"
proof -
  have "unat (take_bit n (drop_bit lo w)) = take_bit n (drop_bit lo (unat w))"
    by (simp only: unsigned_take_bit_eq unat_drop_bit_eq)
  also have "\<dots> = bit_field (unat w) lo n"
    by (simp only: bit_field_def take_bit_eq_mod drop_bit_eq_div)
  finally show ?thesis .
qed

lemma unat_ucast_small:
  fixes w :: "'a::len word"
  assumes "unat w < 256"
  shows "unat (ucast w :: u8) = unat w"
proof -
  have "unat (ucast w :: u8) = take_bit 8 (unat w)"
    by (simp add: unsigned_ucast_eq)
  also have "\<dots> = unat w" using assms by (simp add: take_bit_nat_eq_self_iff)
  finally show ?thesis .
qed

lemma bit_field_less: "bit_field v lo n < 2 ^ n"
  by (simp add: bit_field_def)

lemma get32_field:
  fixes w :: cuint
  shows "unat (ucast (drop_bit lo w AND 0xff) :: u8) = bit_field (unat w) lo 8"
proof -
  have "(ucast (drop_bit lo w AND 0xff) :: u8) = ucast (take_bit 8 (drop_bit lo w))"
    unfolding mask_ff by (rule bit_word_eqI) (auto simp: bit_simps)
  moreover have "unat (take_bit 8 (drop_bit lo w)) < 256"
    using bit_field_less[of "unat w" lo 8] by (simp only: unat_field) simp
  ultimately show ?thesis by (simp only: unat_ucast_small unat_field)
qed

lemma unat_times8:
  fixes c :: u8
  assumes "unat c < 32"
  shows "unat (push_bit 3 c) = unat c * 8"
proof -
  have "unat (push_bit 3 c) = take_bit 8 (push_bit 3 (unat c))"
    by (simp only: unsigned_push_bit_eq) simp
  also have "\<dots> = unat c * 8"
    using assms by (simp add: take_bit_nat_eq_self_iff push_bit_eq_mult)
  finally show ?thesis .
qed


lemma get16_fields:
  fixes h :: u16
  shows "unat (ucast (drop_bit 7 (ucast h :: cint) AND 0xf8) :: u8) = bit_field (unat h) 10 5 * 8"
    "unat (ucast (drop_bit 2 (ucast h :: cint) AND 0xf8) :: u8) = bit_field (unat h) 5 5 * 8"
    "unat (ucast (push_bit 3 (ucast h :: cint) AND 0xf8) :: u8) = bit_field (unat h) 0 5 * 8"
proof -
  have small: "unat (ucast (take_bit 5 (drop_bit lo h)) :: u8) = bit_field (unat h) lo 5" for lo
    using bit_field_less[of "unat h" lo 5] by (simp add: unat_ucast_small unat_field)
  have t8: "unat (push_bit 3 (ucast (take_bit 5 (drop_bit lo h)) :: u8)) = bit_field (unat h) lo 5 * 8" for lo
  proof -
    have "unat (ucast (take_bit 5 (drop_bit lo h)) :: u8) < 32"
      using bit_field_less[of "unat h" lo 5] by (simp only: small) simp
    from unat_times8[OF this] show ?thesis by (simp only: small)
  qed
  have "(ucast (drop_bit 7 (ucast h :: cint) AND 0xf8) :: u8) = push_bit 3 (ucast (take_bit 5 (drop_bit 10 h)))"
    unfolding mask_f8 by (rule u8_eqI) (simp_all add: bit_simps)
  then show "unat (ucast (drop_bit 7 (ucast h :: cint) AND 0xf8) :: u8) = bit_field (unat h) 10 5 * 8"
    by (simp only: t8)
  have "(ucast (drop_bit 2 (ucast h :: cint) AND 0xf8) :: u8) = push_bit 3 (ucast (take_bit 5 (drop_bit 5 h)))"
    unfolding mask_f8 by (rule u8_eqI) (simp_all add: bit_simps)
  then show "unat (ucast (drop_bit 2 (ucast h :: cint) AND 0xf8) :: u8) = bit_field (unat h) 5 5 * 8"
    by (simp only: t8)
  have "(ucast (push_bit 3 (ucast h :: cint) AND 0xf8) :: u8) = push_bit 3 (ucast (take_bit 5 (drop_bit 0 h)))"
    unfolding mask_f8 by (rule u8_eqI) (simp_all add: bit_simps)
  then show "unat (ucast (push_bit 3 (ucast h :: cint) AND 0xf8) :: u8) = bit_field (unat h) 0 5 * 8"
    by (simp only: t8)
qed

lemma spread2_times85:
  fixes c :: u8
  assumes "unat c < 4"
  shows "unat (spread2 (push_bit 6 c)) = unat c * 85"
proof -
  from assms have "unat c \<in> {0, 1, 2, 3}" by auto
  then have "c = 0 \<or> c = 1 \<or> c = 2 \<or> c = 3"
    by (simp add: word_unat_eq_iff)
  then show ?thesis by (auto simp: spread2_def)
qed

lemma get8_fields:
  fixes s :: u8
  shows "unat (spread2 (ucast (push_bit 2 (ucast s :: cint) AND 0xc0))) = bit_field (unat s) 4 2 * 85"
    "unat (spread2 (ucast (push_bit 4 (ucast s :: cint) AND 0xc0))) = bit_field (unat s) 2 2 * 85"
    "unat (spread2 (ucast (push_bit 6 (ucast s :: cint) AND 0xc0))) = bit_field (unat s) 0 2 * 85"
proof -
  have small: "unat (take_bit 2 (drop_bit lo s)) < 4" for lo
    using bit_field_less[of "unat s" lo 2] by (simp add: unat_field)
  have t: "unat (spread2 (push_bit 6 (take_bit 2 (drop_bit lo s)))) = bit_field (unat s) lo 2 * 85" for lo
    using spread2_times85[OF small] by (simp only: unat_field)
  have "(ucast (push_bit 2 (ucast s :: cint) AND 0xc0) :: u8) = push_bit 6 (take_bit 2 (drop_bit 4 s))"
    unfolding mask_c0 by (rule u8_eqI) (simp_all add: bit_simps)
  then show "unat (spread2 (ucast (push_bit 2 (ucast s :: cint) AND 0xc0))) = bit_field (unat s) 4 2 * 85"
    by (simp only: t)
  have "(ucast (push_bit 4 (ucast s :: cint) AND 0xc0) :: u8) = push_bit 6 (take_bit 2 (drop_bit 2 s))"
    unfolding mask_c0 by (rule u8_eqI) (simp_all add: bit_simps)
  then show "unat (spread2 (ucast (push_bit 4 (ucast s :: cint) AND 0xc0))) = bit_field (unat s) 2 2 * 85"
    by (simp only: t)
  have "(ucast (push_bit 6 (ucast s :: cint) AND 0xc0) :: u8) = push_bit 6 (take_bit 2 (drop_bit 0 s))"
    unfolding mask_c0 by (rule u8_eqI) (simp_all add: bit_simps)
  then show "unat (spread2 (ucast (push_bit 6 (ucast s :: cint) AND 0xc0))) = bit_field (unat s) 0 2 * 85"
    by (simp only: t)
qed


lemma bit_field_1: "bit_field n k 1 = (if bit n k then 1 else 0)"
  by (simp add: bit_field_def bit_iff_odd mod_2_eq_odd)

lemma nibble_low: "k < 4 \<Longrightarrow> bit (n mod 16 :: nat) k = bit n k"
  using bit_take_bit_iff[of 4 n k] by (simp add: take_bit_eq_mod)

lemma get4_fields:
  fixes s :: u8 and lowhalf :: bool
  defines "c \<equiv> (if lowhalf then s else drop_bit 4 s)"
    and "v \<equiv> (if lowhalf then unat s mod 16 else unat s div 16)"
  shows "c AND 4 \<noteq> 0 \<longleftrightarrow> bit_field v 2 1 = 1"
    "c AND 2 \<noteq> 0 \<longleftrightarrow> bit_field v 1 1 = 1"
    "c AND 1 \<noteq> 0 \<longleftrightarrow> bit_field v 0 1 = 1"
proof -
  have "unat (drop_bit 4 s) = drop_bit 4 (unat s)"
    by (rule unat_drop_bit_eq)
  then have hi: "unat (drop_bit 4 s) = unat s div 16"
    by (simp only: drop_bit_eq_div) simp
  have b: "k < 4 \<Longrightarrow> bit c k = bit v k" for k :: nat
  proof -
    have u: "bit (unat w) k = bit w k" for w :: u8 by (simp add: bit_unsigned_iff)
    show ?thesis if "k < 4"
      unfolding c_def v_def using that by (simp add: nibble_low u hi[symmetric])
  qed
  show "c AND 4 \<noteq> 0 \<longleftrightarrow> bit_field v 2 1 = 1"
    "c AND 2 \<noteq> 0 \<longleftrightarrow> bit_field v 1 1 = 1"
    "c AND 1 \<noteq> 0 \<longleftrightarrow> bit_field v 0 1 = 1"
    unfolding and_bit_test bit_field_1 by (simp_all add: b)
qed


lemma get32_fields:
  fixes w :: cuint
  shows "unat (ucast (drop_bit 16 w AND 0xff) :: u8) = bit_field (unat w) 16 8
       \<and> unat (ucast (drop_bit 8 w AND 0xff) :: u8) = bit_field (unat w) 8 8
       \<and> unat (ucast (w AND 0xff) :: u8) = bit_field (unat w) 0 8"
  using get32_field[of 16 w] get32_field[of 8 w] get32_field[of 0 w] by simp

lemma get_rule_32:
  assumes "data im = Some d" "bits_per_pixel im = 32"
  shows "ImageGetPixel_rgb be (Some im) x y =
     (case load32 be d (pixel_offset im x y) of Inl e \<Rightarrow> Inl e
      | Inr w \<Rightarrow> Inr (ucast (drop_bit 16 w AND 0xff), ucast (drop_bit 8 w AND 0xff), ucast (w AND 0xff)))"
    "stored_pixel be im d x y = map_sum id unat (load32 be d (pixel_offset im x y))"
  using assms by (simp_all add: ImageGetPixel_rgb_def stored_pixel_def Let_def split: sum.splits)

lemma get_rule_16:
  assumes "data im = Some d" "bits_per_pixel im = 16"
  shows "ImageGetPixel_rgb be (Some im) x y =
     (case load16 be d (pixel_offset im x y) of Inl e \<Rightarrow> Inl e
      | Inr h \<Rightarrow> Inr (ucast (drop_bit 7 (ucast h :: cint) AND 0xf8),
                             ucast (drop_bit 2 (ucast h :: cint) AND 0xf8),
                             ucast (push_bit 3 (ucast h :: cint) AND 0xf8)))"
    "stored_pixel be im d x y = map_sum id unat (load16 be d (pixel_offset im x y))"
  using assms by (simp_all add: ImageGetPixel_rgb_def stored_pixel_def Let_def split: sum.splits)

lemma get_rule_8:
  assumes "data im = Some d" "bits_per_pixel im = 8"
  shows "ImageGetPixel_rgb be (Some im) x y =
     (case load8 d (pixel_offset im x y) of Inl e \<Rightarrow> Inl e
      | Inr s \<Rightarrow> Inr (spread2 (ucast (push_bit 2 (ucast s :: cint) AND 0xc0)),
                      spread2 (ucast (push_bit 4 (ucast s :: cint) AND 0xc0)),
                      spread2 (ucast (push_bit 6 (ucast s :: cint) AND 0xc0))))"
    "stored_pixel be im d x y = map_sum id unat (load8 d (pixel_offset im x y))"
  using assms by (simp_all add: ImageGetPixel_rgb_def stored_pixel_def spread2_def Let_def split: sum.splits)

lemma get_rule_4:
  assumes "data im = Some d" "bits_per_pixel im = 4"
  shows "ImageGetPixel_rgb be (Some im) x y =
     (case load8 d (pixel_offset im x y) of Inl e \<Rightarrow> Inl e
      | Inr s \<Rightarrow> (let c = (if c_rem (sint x) 2 \<noteq> 0 then s else drop_bit 4 s)
                     in Inr (if c AND 0x04 \<noteq> 0 then 0xff else 0,
                             if c AND 0x02 \<noteq> 0 then 0xff else 0,
                             if c AND 0x01 \<noteq> 0 then 0xff else 0)))"
    "stored_pixel be im d x y = map_sum id (\<lambda>s. if c_rem (sint x) 2 \<noteq> 0 then unat s mod 16 else unat s div 16)
          (load8 d (pixel_offset im x y))"
  using assms by (simp_all add: ImageGetPixel_rgb_def stored_pixel_def Let_def split: sum.splits)

lemma get_rule_1:
  assumes "data im = Some d" "bits_per_pixel im = 1"
  shows "ImageGetPixel_rgb be (Some im) x y =
     (case stored_pixel be im d x y of Inl e \<Rightarrow> Inl e
      | Inr v \<Rightarrow> Inr (if v \<noteq> 0 then (0xff, 0xff, 0xff) else (0, 0, 0)))"
  using assms by (simp add: ImageGetPixel_rgb_def stored_pixel_def split: sum.splits)

text \<open>
  Claim C2.  \<open>ImageGetPixel\<close> converts the stored pixel to 8-bit channels by a fixed rule
  per depth, for exactly the depths 1, 4, 8, 16 and 32: at depth 32 each channel is the
  corresponding byte of the word (bits 23-16, 15-8, 7-0); at depth 16 each 5-bit channel
  \<open>c\<close> becomes \<open>c * 8\<close>; at depth 8 each 2-bit channel \<open>c\<close> becomes \<open>c * 85\<close>; at depth 4
  a set channel bit gives 255 and a clear one 0; at depth 1 all three channels are 255
  when the addressed bit is set and 0 otherwise.  The rule is \<open>depth_rule\<close>, the stored
  pixel is \<open>stored_pixel\<close>; a read outside the buffer is a fault of both.
\<close>

theorem ImageGetPixel_depth_rule:
  assumes "data im = Some d"
  shows "(\<forall>e. stored_pixel be im d x y = Inl e \<longrightarrow> ImageGetPixel rgbpixel be (Some im) x y = Inl e)
    \<and> (\<forall>v. stored_pixel be im d x y = Inr v \<longrightarrow>
          (\<exists>r g b. ImageGetPixel_rgb be (Some im) x y = Inr (r, g, b)
             \<and> ImageGetPixel rgbpixel be (Some im) x y = Inr (rgbpixel r g b)
             \<and> (unat r, unat g, unat b) = depth_rule (unat (bits_per_pixel im)) v))"
proof -
  let ?bpp = "bits_per_pixel im"
  consider "?bpp = 32" | "?bpp = 16" | "?bpp = 8" | "?bpp = 4" | "?bpp = 1"
    | "?bpp \<notin> {32, 16, 8, 4, 1}" by auto
  then have "case stored_pixel be im d x y of
       Inl e \<Rightarrow> ImageGetPixel_rgb be (Some im) x y = Inl e
     | Inr v \<Rightarrow> (\<exists>r g b. ImageGetPixel_rgb be (Some im) x y = Inr (r, g, b)
             \<and> (unat r, unat g, unat b) = depth_rule (unat ?bpp) v)"
  proof cases
    case 1
    show ?thesis
    proof (cases "load32 be d (pixel_offset im x y)")
      case (Inl e)
      then show ?thesis unfolding get_rule_32[OF assms 1] by simp
    next
      case (Inr w)
      then show ?thesis unfolding get_rule_32[OF assms 1]
        using get32_fields[of w] by (simp add: 1 depth_rule_def)
    qed
  next
    case 2
    show ?thesis unfolding get_rule_16[OF assms 2] 
      by (simp add: 2 depth_rule_def get16_fields split: sum.splits)
  next
    case 3
    show ?thesis unfolding get_rule_8[OF assms 3] 
      by (simp add: 3 depth_rule_def get8_fields split: sum.splits)
  next
    case 4
    show ?thesis unfolding get_rule_4[OF assms 4] 
      by (simp add: 4 depth_rule_def get4_fields Let_def split: sum.splits)
  next
    case 5
    show ?thesis unfolding get_rule_1[OF assms 5] 
      by (simp add: 5 depth_rule_def split: sum.splits)
  next
    case 6
    then have "unat ?bpp \<notin> {32, 16, 8, 4, 1}"
      by (auto simp: word_unat_eq_iff)
    with 6 assms show ?thesis
      by (simp add: ImageGetPixel_rgb_def stored_pixel_def depth_rule_def)
  qed
  then show ?thesis
    by (auto simp: ImageGetPixel_def split: sum.splits)
qed

theorem ImageGetPixel_depth_rule_witness:
  "data (example_image 8 (replicate 16 0x2D)) = Some (replicate 16 0x2D)
   \<and> stored_pixel False (example_image 8 (replicate 16 0x2D)) (replicate 16 0x2D) 1 1 = Inr 45
   \<and> (\<exists>r g b. ImageGetPixel_rgb False (Some (example_image 8 (replicate 16 0x2D))) 1 1 = Inr (r, g, b)
         \<and> ImageGetPixel example_RGBPixel False (Some (example_image 8 (replicate 16 0x2D))) 1 1
             = Inr (example_RGBPixel r g b)
         \<and> (unat r, unat g, unat b) = (170, 255, 85))
   \<and> stored_pixel False (example_image 8 (replicate 16 0x2D)) (replicate 16 0x2D) 1 2
       = Inl OutOfBounds
   \<and> ImageGetPixel example_RGBPixel False (Some (example_image 8 (replicate 16 0x2D))) 1 2
       = Inl OutOfBounds"
proof -
  let ?d = "replicate 16 (0x2D :: u8)"
  let ?im = "example_image 8 ?d"
  have d: "data ?im = Some ?d" by (simp add: example_image_def)
  have sp: "stored_pixel False ?im ?d 1 1 = Inr 45"
    by (simp add: stored_pixel_def example_image_def pixel_offset_def c_div_def NBBY_def
        load8_def in_buf_def)
  have r: "depth_rule (unat (bits_per_pixel ?im)) 45 = (170, 255, 85)"
    by (simp add: depth_rule_def bit_field_def example_image_def)
  have out: "stored_pixel False ?im ?d 1 2 = Inl OutOfBounds"
    by (simp add: stored_pixel_def example_image_def pixel_offset_def c_div_def NBBY_def
        load8_def in_buf_def)
  from ImageGetPixel_depth_rule[OF d, of False 1 1 example_RGBPixel]
    ImageGetPixel_depth_rule[OF d, of False 1 2 example_RGBPixel] sp out d
  show ?thesis
    by (simp add: r)
qed

section \<open>The row stride of \<open>XCreateImage\<close>\<close>














section \<open>Images that yield no native image\<close>

text \<open>
  Claim C9.  \<open>TkMacOSXCreateCGImageWithXImage\<close> returns \<open>NULL\<close> for every \<open>XImage\<close> whose
  \<open>bits_per_pixel\<close> is neither 1 nor 32, for every image of 32 bits per pixel whose format
  is not \<open>ZPixmap\<close>, and for every \<open>ZPixmap\<close> of 32 bits per pixel whose width and height
  are both zero; a non-\<open>NULL\<close> image can only come from a bitmap of 1 bit per pixel or
  from a \<open>ZPixmap\<close> of 32 bits per pixel with a nonzero dimension.
\<close>

theorem unsupported_images_give_NULL:
  "(bits_per_pixel im \<noteq> 1 \<and> bits_per_pixel im \<noteq> 32
      \<longrightarrow> TkMacOSXCreateCGImageWithXImage cg tbl im alphaInfo = Inr None)
   \<and> (bits_per_pixel im = 32 \<and> format im \<noteq> ZPixmap
      \<longrightarrow> TkMacOSXCreateCGImageWithXImage cg tbl im alphaInfo = Inr None)
   \<and> (bits_per_pixel im = 32 \<and> format im = ZPixmap \<and> width im = 0 \<and> height im = 0
      \<longrightarrow> TkMacOSXCreateCGImageWithXImage cg tbl im alphaInfo = Inr None)
   \<and> (\<forall>i. TkMacOSXCreateCGImageWithXImage cg tbl im alphaInfo = Inr (Some i)
      \<longrightarrow> bits_per_pixel im = 1
          \<or> (bits_per_pixel im = 32 \<and> format im = ZPixmap \<and> (width im \<noteq> 0 \<or> height im \<noteq> 0)))"
  by (auto simp: TkMacOSXCreateCGImageWithXImage_def Let_def split: if_splits sum.splits)

theorem unsupported_images_give_NULL_witness:
  "(bits_per_pixel (example_image 16 []) \<noteq> 1 \<and> bits_per_pixel (example_image 16 []) \<noteq> 32
      \<and> TkMacOSXCreateCGImageWithXImage example_cg id (example_image 16 []) 5 = Inr None)
   \<and> (bits_per_pixel ((example_image 32 [])\<lparr>format := XYPixmap\<rparr>) = 32
      \<and> format ((example_image 32 [])\<lparr>format := XYPixmap\<rparr>) \<noteq> ZPixmap
      \<and> TkMacOSXCreateCGImageWithXImage example_cg id ((example_image 32 [])\<lparr>format := XYPixmap\<rparr>) 5
          = Inr None)
   \<and> (width ((example_image 32 [])\<lparr>width := 0, height := 0\<rparr>) = 0
      \<and> height ((example_image 32 [])\<lparr>width := 0, height := 0\<rparr>) = 0
      \<and> TkMacOSXCreateCGImageWithXImage example_cg id ((example_image 32 [])\<lparr>width := 0, height := 0\<rparr>) 5
          = Inr None)
   \<and> (TkMacOSXCreateCGImageWithXImage example_cg id (example_image 32 (replicate 16 7)) 5
          = Inr (Some (False, 2, 2, 8, replicate 16 7))
      \<and> bits_per_pixel (example_image 32 (replicate 16 7)) = 32
      \<and> format (example_image 32 (replicate 16 7)) = ZPixmap
      \<and> width (example_image 32 (replicate 16 7)) \<noteq> 0)"
proof -
  have ok: "TkMacOSXCreateCGImageWithXImage example_cg id (example_image 32 (replicate 16 7)) 5
          = Inr (Some (False, 2, 2, 8, replicate 16 7))"
    by (simp add: TkMacOSXCreateCGImageWithXImage_def example_image_def example_cg_def
        image_len_def image_bytes_def in_buf_def LSBFirst_def MSBFirst_def)
  from unsupported_images_give_NULL[of "example_image 16 []" example_cg id 5]
    unsupported_images_give_NULL[of "(example_image 32 [])\<lparr>format := XYPixmap\<rparr>" example_cg id 5]
    unsupported_images_give_NULL[of "(example_image 32 [])\<lparr>width := 0, height := 0\<rparr>" example_cg id 5]
    unsupported_images_give_NULL[of "example_image 32 (replicate 16 7)" example_cg id 5]
    ok
  show ?thesis
    by (simp add: example_image_def ZPixmap_def XYPixmap_def)
qed

section \<open>Configuring an \<open>nsimage\<close>\<close>

lemma configure_unfold:
  "TkNSImageConfigureMaster os tk m0 objv =
     (case Tk_SetOptions tk m0 objv of
        None \<Rightarrow> Inr (errorExit m0 None)
      | Some m \<Rightarrow>
         (if source_missing m then Inr (errorExit m (Some ''-source is required.''))
          else
            (case Tcl_GetIndexFromObj tk (Tk_GetOptionValue tk m ''-as'') sourceInterpretations of
               Inl e \<Rightarrow> Inl e
             | Inr None \<Rightarrow>
                 Inr (errorExit m (Some (''Unknown interpretation for source in -as option.  ''
                                         @ ''Should be name, file, path, or filetype.'')))
             | Inr (Some i) \<Rightarrow>
                (case resolve_source os i (the (source m)) of
                   None \<Rightarrow> Inr (errorExit m (Some (''Unknown named NSImage.'' @ [CHR 0x0A]
                               @ ''Try omitting ImageName, ''
                               @ ''e.g. use NSCaution for NSImageNameCaution.'')))
                 | Some loaded \<Rightarrow> Inr (install_image m loaded)))))"
  unfolding TkNSImageConfigureMaster_def source_missing_def resolve_source_def install_image_def
    variants_def setSize_def Let_def
  by (simp split: option.splits sum.splits add: split_def)

lemma errorExit_code: "code (errorExit m msg) = TCL_ERROR"
  by (simp add: errorExit_def)

lemma configure_OK:
  assumes c: "TkNSImageConfigureMaster os tk m0 objv = Inr r" and ok: "code r = TCL_OK"
  obtains m i loaded where "Tk_SetOptions tk m0 objv = Some m"
    "Tcl_GetIndexFromObj tk (Tk_GetOptionValue tk m ''-as'') sourceInterpretations = Inr (Some i)"
    "resolve_source os i (the (source m)) = Some loaded"
    "r = install_image m loaded"
proof (cases "Tk_SetOptions tk m0 objv")
  case None
  with c have "r = errorExit m0 None" by (simp add: configure_unfold)
  with ok show ?thesis by (simp add: errorExit_code)
next
  case (Some m)
  show ?thesis
  proof (cases "source_missing m")
    case True
    with c Some have "r = errorExit m (Some ''-source is required.'')"
      by (simp add: configure_unfold)
    with ok show ?thesis by (simp add: errorExit_code)
  next
    case False
    note nm = this
    show ?thesis
    proof (cases "Tcl_GetIndexFromObj tk (Tk_GetOptionValue tk m ''-as'') sourceInterpretations")
      case (Inl e)
      with c Some nm show ?thesis by (simp add: configure_unfold)
    next
      case (Inr res)
      show ?thesis
      proof (cases res)
        case None
        with c Some nm Inr have "\<exists>msg. r = errorExit m msg" by (auto simp: configure_unfold)
        with ok show ?thesis by (auto simp: errorExit_code)
      next
        case (Some i)
        note i = this
        show ?thesis
        proof (cases "resolve_source os i (the (source m))")
          case None
          with c \<open>Tk_SetOptions tk m0 objv = Some m\<close> nm Inr i
          have "\<exists>msg. r = errorExit m msg" by (auto simp: configure_unfold)
          with ok show ?thesis by (auto simp: errorExit_code)
        next
          case (Some loaded)
          with c \<open>Tk_SetOptions tk m0 objv = Some m\<close> nm Inr i
          have "r = install_image m loaded" by (simp add: configure_unfold)
          with \<open>Tk_SetOptions tk m0 objv = Some m\<close> Inr i Some show ?thesis
            by (auto intro: that)
        qed
      qed
    qed
  qed
qed

lemma variants_cases:
  "(isTemplate loaded \<longrightarrow>
       variants m loaded =
         (setSize (sint (m_width m), sint (m_height m)) loaded,
          (setSize (sint (m_width m), sint (m_height m)) loaded)
            \<lparr>edits := edits loaded @ [FillSourceAtop whiteColor (sint (m_width m), sint (m_height m))]\<rparr>))
   \<and> (\<not> isTemplate loaded \<and> pressed m \<longrightarrow>
       variants m loaded =
         (TintImage (setSize (sint (m_width m), sint (m_height m)) loaded) blackColor 0.2,
          TintImage (setSize (sint (m_width m), sint (m_height m)) loaded) whiteColor 0.5))
   \<and> (\<not> isTemplate loaded \<and> \<not> pressed m \<longrightarrow>
       variants m loaded =
         (setSize (sint (m_width m), sint (m_height m)) loaded,
          setSize (sint (m_width m), sint (m_height m)) loaded))"
  by (simp add: variants_def setSize_def Let_def)

section \<open>Light and dark variants\<close>

text \<open>
  Claim C7.  Every successful configuration of an \<open>nsimage\<close> leaves both a light-mode
  image and a dark-mode variant in the master, and both are made from the image that the
  \<open>switch\<close> over the \<open>-as\<close> interpretation has resolved from \<open>-source\<close>, set to the size of
  the master.  For a template image the light-mode image is that image and the dark-mode
  variant is that image filled with white; for an image that is not a template and has
  \<open>-pressed\<close> true, both variants are tinted, black at alpha 0.2 in light mode and white at
  alpha 0.5 in dark mode; otherwise both are that image.  Whatever \<open>TkNSImageDisplay\<close>
  draws is the dark-mode variant when the window is in dark mode and the ordinary image
  otherwise, and it draws exactly once when the drawing context of the drawable can be
  set up.
\<close>

theorem light_and_dark_variants:
  "(\<forall>r. TkNSImageConfigureMaster os tk m0 objv = Inr r \<and> code r = TCL_OK \<longrightarrow>
      (\<exists>m k loaded.
          Tk_SetOptions tk m0 objv = Some m
        \<and> Tcl_GetIndexFromObj tk (Tk_GetOptionValue tk m ''-as'') sourceInterpretations
            = Inr (Some k)
        \<and> (if k = NAME_SOURCE then imageNamed os (the (source m))
            else if k = FILE_SOURCE then initWithContentsOfFile os (the (source m))
            else if k = PATH_SOURCE then iconForFile os (the (source m))
            else if k = FILETYPE_SOURCE then iconForFileType os (the (source m))
            else None) = Some loaded
        \<and> r = install_image m loaded
        \<and> (isTemplate loaded \<longrightarrow>
              image (master r) = Some (setSize (sint (m_width m), sint (m_height m)) loaded)
            \<and> darkModeImage (master r)
                = Some ((setSize (sint (m_width m), sint (m_height m)) loaded)
                         \<lparr>edits := edits loaded
                            @ [FillSourceAtop whiteColor (sint (m_width m), sint (m_height m))]\<rparr>))
        \<and> (\<not> isTemplate loaded \<and> pressed m \<longrightarrow>
              image (master r)
                = Some (TintImage (setSize (sint (m_width m), sint (m_height m)) loaded)
                          blackColor 0.2)
            \<and> darkModeImage (master r)
                = Some (TintImage (setSize (sint (m_width m), sint (m_height m)) loaded)
                          whiteColor 0.5))
        \<and> (\<not> isTemplate loaded \<and> \<not> pressed m \<longrightarrow>
              image (master r) = Some (setSize (sint (m_width m), sint (m_height m)) loaded)
            \<and> darkModeImage (master r)
                = Some (setSize (sint (m_width m), sint (m_height m)) loaded))))
   \<and> (\<forall>inst m. instances s i = Some inst \<and> masters s (masterPtr inst) = Some m \<longrightarrow>
        (\<exists>ds. TkNSImageDisplay s i win ix iy w h dx dy = Inr ds
           \<and> (\<forall>d \<in> set ds. receiver d = (if inDarkMode win then darkModeImage m else image m))
           \<and> (setupDrawingContext win \<and> hasContext win \<longrightarrow> length ds = 1)))"
proof -
  have configured: "\<exists>m k loaded.
          Tk_SetOptions tk m0 objv = Some m
        \<and> Tcl_GetIndexFromObj tk (Tk_GetOptionValue tk m ''-as'') sourceInterpretations
            = Inr (Some k)
        \<and> (if k = NAME_SOURCE then imageNamed os (the (source m))
            else if k = FILE_SOURCE then initWithContentsOfFile os (the (source m))
            else if k = PATH_SOURCE then iconForFile os (the (source m))
            else if k = FILETYPE_SOURCE then iconForFileType os (the (source m))
            else None) = Some loaded
        \<and> r = install_image m loaded
        \<and> (isTemplate loaded \<longrightarrow>
              image (master r) = Some (setSize (sint (m_width m), sint (m_height m)) loaded)
            \<and> darkModeImage (master r)
                = Some ((setSize (sint (m_width m), sint (m_height m)) loaded)
                         \<lparr>edits := edits loaded
                            @ [FillSourceAtop whiteColor (sint (m_width m), sint (m_height m))]\<rparr>))
        \<and> (\<not> isTemplate loaded \<and> pressed m \<longrightarrow>
              image (master r)
                = Some (TintImage (setSize (sint (m_width m), sint (m_height m)) loaded)
                          blackColor 0.2)
            \<and> darkModeImage (master r)
                = Some (TintImage (setSize (sint (m_width m), sint (m_height m)) loaded)
                          whiteColor 0.5))
        \<and> (\<not> isTemplate loaded \<and> \<not> pressed m \<longrightarrow>
              image (master r) = Some (setSize (sint (m_width m), sint (m_height m)) loaded)
            \<and> darkModeImage (master r)
                = Some (setSize (sint (m_width m), sint (m_height m)) loaded))"
    if c: "TkNSImageConfigureMaster os tk m0 objv = Inr r" and ok: "code r = TCL_OK" for r
  proof -
    from c ok obtain m k loaded where opts: "Tk_SetOptions tk m0 objv = Some m"
      and look: "Tcl_GetIndexFromObj tk (Tk_GetOptionValue tk m ''-as'') sourceInterpretations
                   = Inr (Some k)"
      and res: "resolve_source os k (the (source m)) = Some loaded"
      and r: "r = install_image m loaded"
      by (rule configure_OK)
    have imgs: "image (master r) = Some (fst (variants m loaded))"
      "darkModeImage (master r) = Some (snd (variants m loaded))"
      by (simp_all add: r install_image_def)
    note v = variants_cases[of loaded m]
    have t: "isTemplate loaded \<longrightarrow>
              image (master r) = Some (setSize (sint (m_width m), sint (m_height m)) loaded)
            \<and> darkModeImage (master r)
                = Some ((setSize (sint (m_width m), sint (m_height m)) loaded)
                         \<lparr>edits := edits loaded
                            @ [FillSourceAtop whiteColor (sint (m_width m), sint (m_height m))]\<rparr>)"
      using v by (simp add: imgs)
    have p: "\<not> isTemplate loaded \<and> pressed m \<longrightarrow>
              image (master r)
                = Some (TintImage (setSize (sint (m_width m), sint (m_height m)) loaded)
                          blackColor 0.2)
            \<and> darkModeImage (master r)
                = Some (TintImage (setSize (sint (m_width m), sint (m_height m)) loaded)
                          whiteColor 0.5)"
      using v by (simp add: imgs)
    have n: "\<not> isTemplate loaded \<and> \<not> pressed m \<longrightarrow>
              image (master r) = Some (setSize (sint (m_width m), sint (m_height m)) loaded)
            \<and> darkModeImage (master r)
                = Some (setSize (sint (m_width m), sint (m_height m)) loaded)"
      using v by (simp add: imgs)
    from opts look res[unfolded resolve_source_def] r t p n show ?thesis by blast
  qed
  have displayed: "\<exists>ds. TkNSImageDisplay s i win ix iy w h dx dy = Inr ds
           \<and> (\<forall>d \<in> set ds. receiver d = (if inDarkMode win then darkModeImage m else image m))
           \<and> (setupDrawingContext win \<and> hasContext win \<longrightarrow> length ds = 1)"
    if "instances s i = Some inst" "masters s (masterPtr inst) = Some m" for inst m
    using that by (simp add: TkNSImageDisplay_def Let_def)
  from configured displayed show ?thesis by blast
qed

theorem light_and_dark_variants_witness:
  "TkNSImageConfigureMaster example_os example_tk (example_master ''NSAddTemplate'' ''name'' False) []
     = Inr (install_image (example_master ''NSAddTemplate'' ''name'' False) (example_icon ''add'' True))
   \<and> code (install_image (example_master ''NSAddTemplate'' ''name'' False)
             (example_icon ''add'' True)) = TCL_OK
   \<and> imageNamed example_os ''NSAddTemplate'' = Some (example_icon ''add'' True)
   \<and> image (master (install_image (example_master ''NSAddTemplate'' ''name'' False)
                      (example_icon ''add'' True)))
       = Some ((example_icon ''add'' True)\<lparr>size_of := (32, 32)\<rparr>)
   \<and> darkModeImage (master (install_image (example_master ''NSAddTemplate'' ''name'' False)
                      (example_icon ''add'' True)))
       = Some ((example_icon ''add'' True)
                 \<lparr>size_of := (32, 32), edits := [FillSourceAtop whiteColor (32, 32)]\<rparr>)
   \<and> TkNSImageConfigureMaster example_os example_tk (example_master ''NSCaution'' ''name'' True) []
     = Inr (install_image (example_master ''NSCaution'' ''name'' True) (example_icon ''caution'' False))
   \<and> imageNamed example_os ''NSCaution'' = Some (example_icon ''caution'' False)
   \<and> image (master (install_image (example_master ''NSCaution'' ''name'' True)
                      (example_icon ''caution'' False)))
       = Some ((example_icon ''caution'' False)\<lparr>size_of := (32, 32), edits := [Tint blackColor 0.2]\<rparr>)
   \<and> darkModeImage (master (install_image (example_master ''NSCaution'' ''name'' True)
                      (example_icon ''caution'' False)))
       = Some ((example_icon ''caution'' False)\<lparr>size_of := (32, 32), edits := [Tint whiteColor 0.5]\<rparr>)
   \<and> (\<exists>ds. TkNSImageDisplay example_store 1 (example_window True True) 0 0 32 32 5 5 = Inr ds
         \<and> (\<forall>d \<in> set ds. receiver d = Some (example_icon ''dark'' False))
         \<and> length ds = 1)"
proof -
  let ?m = "example_master ''NSAddTemplate'' ''name'' False"
  let ?r = "install_image ?m (example_icon ''add'' True)"
  have look: "tcl_GetIndexFromObj ''name'' sourceInterpretations = Inr (Some 0)"
    by (simp add: tcl_GetIndexFromObj_def sourceInterpretations_def)
  have cfg: "TkNSImageConfigureMaster example_os example_tk ?m [] = Inr ?r"
    by (simp add: configure_unfold example_tk_def example_master_def source_missing_def look
        resolve_source_def NAME_SOURCE_def example_os_def)
  have ok: "code ?r = TCL_OK" by (simp add: install_image_def)
  have st: "instances example_store 1 = Some \<lparr>masterPtr = 0, inst_image = None, nextPtr = None\<rparr>"
    "masters example_store 0 = Some ((example_master ''NSCaution'' ''name'' True)
                        \<lparr>image := Some (example_icon ''light'' False),
                         darkModeImage := Some (example_icon ''dark'' False)\<rparr>)"
    by (simp_all add: example_store_def)
  note inst = light_and_dark_variants[of example_os example_tk ?m "[]" example_store 1
      "example_window True True" 0 0 32 32 5 5]
  from inst cfg ok obtain m i loaded where
    m: "Tk_SetOptions example_tk ?m [] = Some m"
    and i: "Tcl_GetIndexFromObj example_tk (Tk_GetOptionValue example_tk m ''-as'')
              sourceInterpretations = Inr (Some i)"
    and l: "(if i = NAME_SOURCE then imageNamed example_os (the (source m))
            else if i = FILE_SOURCE then initWithContentsOfFile example_os (the (source m))
            else if i = PATH_SOURCE then iconForFile example_os (the (source m))
            else if i = FILETYPE_SOURCE then iconForFileType example_os (the (source m))
            else None) = Some loaded"
    and t: "isTemplate loaded \<longrightarrow>
              image (master ?r) = Some (setSize (sint (m_width m), sint (m_height m)) loaded)
            \<and> darkModeImage (master ?r)
                = Some ((setSize (sint (m_width m), sint (m_height m)) loaded)
                         \<lparr>edits := edits loaded
                            @ [FillSourceAtop whiteColor (sint (m_width m), sint (m_height m))]\<rparr>)"
    by blast
  from m have m': "m = ?m" by (simp add: example_tk_def)
  from i have i': "i = NAME_SOURCE"
    by (simp add: m' example_tk_def example_master_def look NAME_SOURCE_def)
  from l have l': "loaded = example_icon ''add'' True"
    by (simp add: m' i' example_master_def example_os_def)
  have named: "imageNamed example_os ''NSAddTemplate'' = Some (example_icon ''add'' True)"
    "imageNamed example_os ''NSCaution'' = Some (example_icon ''caution'' False)"
    by (simp_all add: example_os_def)
  from t have imgs: "image (master ?r) = Some ((example_icon ''add'' True)\<lparr>size_of := (32, 32)\<rparr>)"
    "darkModeImage (master ?r) = Some ((example_icon ''add'' True)
                 \<lparr>size_of := (32, 32), edits := [FillSourceAtop whiteColor (32, 32)]\<rparr>)"
    unfolding l' m' by (simp_all add: setSize_def example_icon_def example_master_def)
  from inst st
  have "\<exists>ds. TkNSImageDisplay example_store 1 (example_window True True) 0 0 32 32 5 5 = Inr ds
         \<and> (\<forall>d \<in> set ds. receiver d = Some (example_icon ''dark'' False))
         \<and> length ds = 1"
    by (simp add: example_window_def)
  moreover
  let ?p = "example_master ''NSCaution'' ''name'' True"
  let ?q = "install_image ?p (example_icon ''caution'' False)"
  have cfg2: "TkNSImageConfigureMaster example_os example_tk ?p [] = Inr ?q"
    by (simp add: configure_unfold example_tk_def example_master_def source_missing_def look
        resolve_source_def NAME_SOURCE_def example_os_def)
  have imgs2: "image (master ?q)
       = Some ((example_icon ''caution'' False)\<lparr>size_of := (32, 32), edits := [Tint blackColor 0.2]\<rparr>)"
    "darkModeImage (master ?q)
       = Some ((example_icon ''caution'' False)\<lparr>size_of := (32, 32), edits := [Tint whiteColor 0.5]\<rparr>)"
    by (simp_all add: install_image_def variants_def setSize_def TintImage_def example_icon_def
        example_master_def Let_def)
  ultimately show ?thesis using cfg ok named imgs cfg2 imgs2 by simp
qed

section \<open>Instances of an \<open>nsimage\<close>\<close>

text \<open>
  Claim C8.  Every instance that \<open>TkNSImageGet\<close> creates holds a pointer to the master it
  was created from, and creating it changes no master.  \<open>TkNSImageFree\<close> frees the
  instance record it is given and nothing else: every master, with all its fields, and
  every other instance are as before.
\<close>

theorem instances_refer_to_master:
  "(\<exists>inst. instances (fst (TkNSImageGet s m)) = (instances s)(snd (TkNSImageGet s m) \<mapsto> inst)
        \<and> masterPtr inst = m)
   \<and> masters (fst (TkNSImageGet s m)) = masters s
   \<and> masters (TkNSImageFree s i) = masters s
   \<and> instances (TkNSImageFree s i) = (instances s)(i := None)
   \<and> next_addr (TkNSImageFree s i) = next_addr s"
proof -
  have "instances (fst (TkNSImageGet s m))
          = (instances s)(snd (TkNSImageGet s m) \<mapsto>
               \<lparr>masterPtr = m, inst_image = None, nextPtr = None\<rparr>)"
    by (simp add: TkNSImageGet_def Let_def)
  then have "\<exists>inst. instances (fst (TkNSImageGet s m))
          = (instances s)(snd (TkNSImageGet s m) \<mapsto> inst) \<and> masterPtr inst = m"
    by (intro exI[of _ "\<lparr>masterPtr = m, inst_image = None, nextPtr = None\<rparr>"]) simp
  then show ?thesis
    by (simp add: TkNSImageGet_def TkNSImageFree_def Let_def)
qed

theorem instances_refer_to_master_witness:
  "snd (TkNSImageGet example_store 0) = 2
   \<and> map_option masterPtr (instances (fst (TkNSImageGet example_store 0)) 2) = Some 0
   \<and> masters (TkNSImageFree (fst (TkNSImageGet example_store 0)) 2) = masters example_store
   \<and> instances (TkNSImageFree (fst (TkNSImageGet example_store 0)) 2) = instances example_store
   \<and> map_option masterPtr (instances (TkNSImageFree (fst (TkNSImageGet example_store 0)) 2) 1) = Some 0"
proof -
  have fresh: "snd (TkNSImageGet example_store 0) = 2"
    by (simp add: TkNSImageGet_def example_store_def)
  have before: "instances example_store 2 = None" "instances example_store (Suc 0)
      = Some \<lparr>masterPtr = 0, inst_image = None, nextPtr = None\<rparr>"
    by (simp_all add: example_store_def)
  have upd: "instances (fst (TkNSImageGet example_store 0))
      = (instances example_store)(2 \<mapsto> \<lparr>masterPtr = 0, inst_image = None, nextPtr = None\<rparr>)"
    by (simp add: TkNSImageGet_def example_store_def)
  have restore: "((instances example_store)(2 \<mapsto> v))(2 := None) = instances example_store" for v
    using before(1) by (auto simp: fun_eq_iff)
  from instances_refer_to_master[of example_store 0 2]
    instances_refer_to_master[of "fst (TkNSImageGet example_store 0)" 0 2]
  show ?thesis
    unfolding fresh by (auto simp: upd restore before)
qed

section \<open>The \<open>-as\<close> interpretations\<close>

text \<open>
  Claim C6.  Configuring an \<open>nsimage\<close> accepts exactly the four \<open>-as\<close> interpretations
  \<open>name\<close>, \<open>file\<close>, \<open>path\<close> and \<open>filetype\<close>: for each of them the \<open>-source\<close> string is
  resolved by the corresponding method (named \<open>NSImage\<close>, contents of an image file, icon
  of a file path, icon of a file type), and for every other \<open>-as\<close> value
  \<open>TkNSImageConfigureMaster\<close> returns \<open>TCL_ERROR\<close> with an error message and installs no
  image.

  The code does so for the four names, as the first four runs below show, and departs from
  it at two inputs.  With \<open>-source 0.png -as file\<close> the source is not resolved although the
  file holds an image: the test for an empty \<open>-source\<close> compares its first character with
  the digit \<open>'0'\<close>, where the end of the string is meant, and the function returns
  \<open>TCL_ERROR\<close> with \<open>-source is required.\<close>; the same call with \<open>-source a.png\<close> installs
  the image of the file.  With \<open>-as bogus\<close> the function does not return \<open>TCL_ERROR\<close>: the
  table \<open>sourceInterpretations\<close> has no \<open>NULL\<close> entry at its end, which the table
  \<open>options\<close> of \<open>TkNSImageCmd\<close> has, so the lookup of a value that is none of the four
  names reads past the end of the array.
\<close>

theorem as_option_failing_inputs:
  "TkNSImageConfigureMaster example_os example_tk (example_master ''NSCaution'' ''name'' False) []
     = Inr (install_image (example_master ''NSCaution'' ''name'' False)
              (the (imageNamed example_os ''NSCaution'')))
   \<and> TkNSImageConfigureMaster example_os example_tk (example_master ''a.png'' ''file'' False) []
     = Inr (install_image (example_master ''a.png'' ''file'' False)
              (the (initWithContentsOfFile example_os ''a.png'')))
   \<and> TkNSImageConfigureMaster example_os example_tk (example_master ''/tmp'' ''path'' False) []
     = Inr (install_image (example_master ''/tmp'' ''path'' False)
              (the (iconForFile example_os ''/tmp'')))
   \<and> TkNSImageConfigureMaster example_os example_tk (example_master ''pdf'' ''filetype'' False) []
     = Inr (install_image (example_master ''pdf'' ''filetype'' False)
              (the (iconForFileType example_os ''pdf'')))
   \<and> initWithContentsOfFile example_os ''0.png'' = Some (example_icon ''file 0.png'' False)
   \<and> TkNSImageConfigureMaster example_os example_tk (example_master ''0.png'' ''file'' False) []
     = Inr (errorExit (example_master ''0.png'' ''file'' False) (Some ''-source is required.''))
   \<and> TkNSImageConfigureMaster example_os example_tk (example_master ''a.png'' ''bogus'' False) []
     = Inl OutOfBounds"
  by (simp add: configure_unfold example_tk_def example_master_def source_missing_def
      example_os_def tcl_GetIndexFromObj_def sourceInterpretations_def resolve_source_def
      NAME_SOURCE_def FILE_SOURCE_def PATH_SOURCE_def FILETYPE_SOURCE_def)

section \<open>The print dialog\<close>

lemmas print_consts = noErr_def NSModalResponseOK_def NSModalResponseCancel_def
  kPMDestinationPrinter_def kPMDestinationFile_def kPMDestinationPreview_def

lemma FinishPrint_OK:
  assumes "PMCreateSession os = noErr" "PMCreatePrintSettings os = noErr"
    "PMSessionDefaultPrintSettings os = noErr" "urlFile g = Some path"
    "PMSessionGetDestinationType os = (noErr, dest)"
  shows "FinishPrint os file NSModalResponseOK g =
     (let g1 = g\<lparr>fileName := file\<rparr>;
          toPrinter = (dest = kPMDestinationPrinter);
          status1 = (if toPrinter then PMSessionGetCurrentPrinter os else noErr);
          status2 = (if toPrinter \<and> status1 = noErr then fst (PMPrinterGetMimeTypes os) else status1)
      in
      if toPrinter \<and> status1 = noErr \<and> status2 = noErr
         \<and> (case snd (PMPrinterGetMimeTypes os) of None \<Rightarrow> False
             | Some mimeTypes \<Rightarrow> ''application/pdf'' \<in> set mimeTypes)
      then Inr (PMPrinterPrintWithFile_status os, g1,
                [PMPrinterPrintWithFile ''application/pdf'' path, CFRelease path])
      else if status2 = noErr \<and> dest = kPMDestinationFile
              \<and> fst (PMSessionCopyDestinationLocation os) = noErr
      then
        (let finalPath = snd (PMSessionCopyDestinationLocation os);
             ext = pathExtension os finalPath;
             copied = (if ext = ''pdf'' \<and> fileExistsAtPath os path
                       then [copyItemAtPath path finalPath] else [])
         in if ext = ''ps''
            then (case cups_command path finalPath of
                    Inl e \<Rightarrow> Inl e
                  | Inr cmd \<Rightarrow> Inr (noErr, g1, copied @ [system cmd]))
            else Inr (noErr, g1, copied))
      else
        (let status3 = (if status2 = noErr \<and> dest = kPMDestinationFile
                        then fst (PMSessionCopyDestinationLocation os) else status2)
         in if status3 = noErr \<and> dest = kPMDestinationPreview
            then Inr (noErr, g1, [openURL path])
            else if status3 = noErr
            then Inr (noErr, g1, [runAlert ''Unsupported Printing Operation''
                                       ''This printing operation is not supported.''])
            else Inr (status3, g1, [])))"
  unfolding FinishPrint_def using assms
  by (simp add: print_consts Let_def)

text \<open>
  Claim C4, as amended.  \<open>FinishPrint\<close> returns \<open>noErr\<close> and does nothing when the dialog
  was cancelled.  On OK, when the three set-up calls succeed, a file to print is recorded
  and the destination can be read: a destination of printer sends the file to the current
  printer when that printer is found and its mime types include \<open>application/pdf\<close>; a
  destination of file, when the output location can be read, copies the print file to it
  for a \<open>.pdf\<close> target (if the print file exists), runs the CUPS filter for a \<open>.ps\<close>
  target (both paths fitting the buffers of 5012 bytes), and does nothing for any other
  target; a destination of preview opens the file
  and returns \<open>noErr\<close>; every destination other than printer, file and preview is
  reported by the alert for an unsupported operation.
\<close>

theorem FinishPrint_destinations:
  "FinishPrint os file NSModalResponseCancel g = Inr (noErr, g, [])
   \<and> (PMCreateSession os = noErr \<and> PMCreatePrintSettings os = noErr
      \<and> PMSessionDefaultPrintSettings os = noErr \<and> urlFile g = Some path
      \<and> PMSessionGetDestinationType os = (noErr, dest) \<longrightarrow>
        (dest = kPMDestinationPrinter \<and> PMSessionGetCurrentPrinter os = noErr
           \<and> PMPrinterGetMimeTypes os = (noErr, Some mimes) \<and> ''application/pdf'' \<in> set mimes \<longrightarrow>
             FinishPrint os file NSModalResponseOK g
               = Inr (PMPrinterPrintWithFile_status os, g\<lparr>fileName := file\<rparr>,
                      [PMPrinterPrintWithFile ''application/pdf'' path, CFRelease path]))
      \<and> (dest = kPMDestinationFile \<and> PMSessionCopyDestinationLocation os = (noErr, out) \<longrightarrow>
            (pathExtension os out = ''pdf'' \<longrightarrow>
               FinishPrint os file NSModalResponseOK g
                 = Inr (noErr, g\<lparr>fileName := file\<rparr>,
                        if fileExistsAtPath os path then [copyItemAtPath path out] else []))
          \<and> (pathExtension os out = ''ps'' \<and> length path < 5012 \<and> length out < 5012 \<longrightarrow>
               FinishPrint os file NSModalResponseOK g
                 = Inr (noErr, g\<lparr>fileName := file\<rparr>,
                        [system (''/usr/sbin/cupsfilter '' @ [CHR 0x22] @ path @ [CHR 0x22]
                                 @ '' -m application/postscript > '' @ [CHR 0x22] @ out @ [CHR 0x22])]))
          \<and> (pathExtension os out \<noteq> ''pdf'' \<and> pathExtension os out \<noteq> ''ps'' \<longrightarrow>
               FinishPrint os file NSModalResponseOK g = Inr (noErr, g\<lparr>fileName := file\<rparr>, [])))
      \<and> (dest = kPMDestinationPreview \<longrightarrow>
            FinishPrint os file NSModalResponseOK g
              = Inr (noErr, g\<lparr>fileName := file\<rparr>, [openURL path]))
      \<and> (dest \<noteq> kPMDestinationPrinter \<and> dest \<noteq> kPMDestinationFile
           \<and> dest \<noteq> kPMDestinationPreview \<longrightarrow>
            FinishPrint os file NSModalResponseOK g
              = Inr (noErr, g\<lparr>fileName := file\<rparr>,
                     [runAlert ''Unsupported Printing Operation''
                               ''This printing operation is not supported.''])))"
proof (intro conjI impI)
  show "FinishPrint os file NSModalResponseCancel g = Inr (noErr, g, [])"
    by (simp add: FinishPrint_def)
next
  assume a: "PMCreateSession os = noErr \<and> PMCreatePrintSettings os = noErr
      \<and> PMSessionDefaultPrintSettings os = noErr \<and> urlFile g = Some path
      \<and> PMSessionGetDestinationType os = (noErr, dest)"
  then have eq: "FinishPrint os file NSModalResponseOK g = 
     (let g1 = g\<lparr>fileName := file\<rparr>;
          toPrinter = (dest = kPMDestinationPrinter);
          status1 = (if toPrinter then PMSessionGetCurrentPrinter os else noErr);
          status2 = (if toPrinter \<and> status1 = noErr then fst (PMPrinterGetMimeTypes os) else status1)
      in
      if toPrinter \<and> status1 = noErr \<and> status2 = noErr
         \<and> (case snd (PMPrinterGetMimeTypes os) of None \<Rightarrow> False
             | Some mimeTypes \<Rightarrow> ''application/pdf'' \<in> set mimeTypes)
      then Inr (PMPrinterPrintWithFile_status os, g1,
                [PMPrinterPrintWithFile ''application/pdf'' path, CFRelease path])
      else if status2 = noErr \<and> dest = kPMDestinationFile
              \<and> fst (PMSessionCopyDestinationLocation os) = noErr
      then
        (let finalPath = snd (PMSessionCopyDestinationLocation os);
             ext = pathExtension os finalPath;
             copied = (if ext = ''pdf'' \<and> fileExistsAtPath os path
                       then [copyItemAtPath path finalPath] else [])
         in if ext = ''ps''
            then (case cups_command path finalPath of
                    Inl e \<Rightarrow> Inl e
                  | Inr cmd \<Rightarrow> Inr (noErr, g1, copied @ [system cmd]))
            else Inr (noErr, g1, copied))
      else
        (let status3 = (if status2 = noErr \<and> dest = kPMDestinationFile
                        then fst (PMSessionCopyDestinationLocation os) else status2)
         in if status3 = noErr \<and> dest = kPMDestinationPreview
            then Inr (noErr, g1, [openURL path])
            else if status3 = noErr
            then Inr (noErr, g1, [runAlert ''Unsupported Printing Operation''
                                       ''This printing operation is not supported.''])
            else Inr (status3, g1, [])))"
    by (intro FinishPrint_OK) simp_all
  note d = kPMDestinationPrinter_def kPMDestinationFile_def kPMDestinationPreview_def
  { assume "dest = kPMDestinationPrinter \<and> PMSessionGetCurrentPrinter os = noErr
           \<and> PMPrinterGetMimeTypes os = (noErr, Some mimes) \<and> ''application/pdf'' \<in> set mimes"
    then show "FinishPrint os file NSModalResponseOK g
               = Inr (PMPrinterPrintWithFile_status os, g\<lparr>fileName := file\<rparr>,
                      [PMPrinterPrintWithFile ''application/pdf'' path, CFRelease path])"
      unfolding eq by simp }
  { assume f: "dest = kPMDestinationFile \<and> PMSessionCopyDestinationLocation os = (noErr, out)"
    { assume "pathExtension os out = ''pdf''"
      with f show "FinishPrint os file NSModalResponseOK g
                 = Inr (noErr, g\<lparr>fileName := file\<rparr>,
                        if fileExistsAtPath os path then [copyItemAtPath path out] else [])"
        unfolding eq by (simp add: d) }
    { assume "pathExtension os out = ''ps'' \<and> length path < 5012 \<and> length out < 5012"
      with f show "FinishPrint os file NSModalResponseOK g
                 = Inr (noErr, g\<lparr>fileName := file\<rparr>,
                        [system (''/usr/sbin/cupsfilter '' @ [CHR 0x22] @ path @ [CHR 0x22]
                                 @ '' -m application/postscript > '' @ [CHR 0x22] @ out @ [CHR 0x22])])"
        unfolding eq by (simp add: d cups_command_def) }
    { assume "pathExtension os out \<noteq> ''pdf'' \<and> pathExtension os out \<noteq> ''ps''"
      with f show "FinishPrint os file NSModalResponseOK g = Inr (noErr, g\<lparr>fileName := file\<rparr>, [])"
        unfolding eq by (simp add: d) } }
  { assume "dest = kPMDestinationPreview"
    then show "FinishPrint os file NSModalResponseOK g
              = Inr (noErr, g\<lparr>fileName := file\<rparr>, [openURL path])"
      unfolding eq by (simp add: d) }
  { assume "dest \<noteq> kPMDestinationPrinter \<and> dest \<noteq> kPMDestinationFile
           \<and> dest \<noteq> kPMDestinationPreview"
    then show "FinishPrint os file NSModalResponseOK g
              = Inr (noErr, g\<lparr>fileName := file\<rparr>,
                     [runAlert ''Unsupported Printing Operation''
                               ''This printing operation is not supported.''])"
      unfolding eq by simp }
qed

theorem FinishPrint_destinations_witness:
  "FinishPrint (example_print_os kPMDestinationPreview [] ''/tmp/o.pdf'') (Some ''/tmp/a.pdf'')
         NSModalResponseOK \<lparr>fileName = None, urlFile = Some ''/tmp/a.pdf''\<rparr>
       = Inr (noErr, \<lparr>fileName = Some ''/tmp/a.pdf'', urlFile = Some ''/tmp/a.pdf''\<rparr>,
              [openURL ''/tmp/a.pdf''])
   \<and> FinishPrint (example_print_os kPMDestinationPrinter [''image/png'', ''application/pdf''] [])
         (Some ''/tmp/a.pdf'') NSModalResponseOK \<lparr>fileName = None, urlFile = Some ''/tmp/a.pdf''\<rparr>
       = Inr (noErr, \<lparr>fileName = Some ''/tmp/a.pdf'', urlFile = Some ''/tmp/a.pdf''\<rparr>,
              [PMPrinterPrintWithFile ''application/pdf'' ''/tmp/a.pdf'', CFRelease ''/tmp/a.pdf''])
   \<and> FinishPrint (example_print_os kPMDestinationFile [] ''/tmp/o.pdf'') (Some ''/tmp/a.pdf'')
         NSModalResponseOK \<lparr>fileName = None, urlFile = Some ''/tmp/a.pdf''\<rparr>
       = Inr (noErr, \<lparr>fileName = Some ''/tmp/a.pdf'', urlFile = Some ''/tmp/a.pdf''\<rparr>,
              [copyItemAtPath ''/tmp/a.pdf'' ''/tmp/o.pdf''])
   \<and> FinishPrint (example_print_os kPMDestinationFile [] ''o.ps'') (Some ''a.pdf'')
         NSModalResponseOK \<lparr>fileName = None, urlFile = Some ''a.pdf''\<rparr>
       = Inr (noErr, \<lparr>fileName = Some ''a.pdf'', urlFile = Some ''a.pdf''\<rparr>,
              [system (''/usr/sbin/cupsfilter '' @ [CHR 0x22] @ ''a.pdf'' @ [CHR 0x22]
                       @ '' -m application/postscript > '' @ [CHR 0x22] @ ''o.ps'' @ [CHR 0x22])])
   \<and> FinishPrint (example_print_os kPMDestinationFile [] ''/tmp/o.txt'') (Some ''/tmp/a.pdf'')
         NSModalResponseOK \<lparr>fileName = None, urlFile = Some ''/tmp/a.pdf''\<rparr>
       = Inr (noErr, \<lparr>fileName = Some ''/tmp/a.pdf'', urlFile = Some ''/tmp/a.pdf''\<rparr>, [])
   \<and> FinishPrint (example_print_os kPMDestinationFax [] ''/tmp/o.pdf'') (Some ''/tmp/a.pdf'')
         NSModalResponseOK \<lparr>fileName = None, urlFile = Some ''/tmp/a.pdf''\<rparr>
       = Inr (noErr, \<lparr>fileName = Some ''/tmp/a.pdf'', urlFile = Some ''/tmp/a.pdf''\<rparr>,
              [runAlert ''Unsupported Printing Operation''
                        ''This printing operation is not supported.''])"
proof -
  let ?g = "\<lparr>fileName = None, urlFile = Some ''/tmp/a.pdf''\<rparr>"
  note ex = example_print_os_def kPMDestinationPrinter_def kPMDestinationFile_def
      kPMDestinationPreview_def kPMDestinationFax_def
  have 1: "FinishPrint (example_print_os kPMDestinationPreview [] ''/tmp/o.pdf'') (Some ''/tmp/a.pdf'')
         NSModalResponseOK ?g
       = Inr (noErr, \<lparr>fileName = Some ''/tmp/a.pdf'', urlFile = Some ''/tmp/a.pdf''\<rparr>,
              [openURL ''/tmp/a.pdf''])"
    using FinishPrint_destinations[of "example_print_os kPMDestinationPreview [] ''/tmp/o.pdf''"
      "Some ''/tmp/a.pdf''" ?g "''/tmp/a.pdf''" kPMDestinationPreview "[]" "''/tmp/o.pdf''"]
    by (simp add: ex)
  have 2: "FinishPrint (example_print_os kPMDestinationPrinter [''image/png'', ''application/pdf''] [])
         (Some ''/tmp/a.pdf'') NSModalResponseOK ?g
       = Inr (noErr, \<lparr>fileName = Some ''/tmp/a.pdf'', urlFile = Some ''/tmp/a.pdf''\<rparr>,
              [PMPrinterPrintWithFile ''application/pdf'' ''/tmp/a.pdf'', CFRelease ''/tmp/a.pdf''])"
    using FinishPrint_destinations[of
      "example_print_os kPMDestinationPrinter [''image/png'', ''application/pdf''] []"
      "Some ''/tmp/a.pdf''" ?g "''/tmp/a.pdf''" kPMDestinationPrinter
      "[''image/png'', ''application/pdf'']" "[]"]
    by (simp add: ex)
  have 3: "FinishPrint (example_print_os kPMDestinationFile [] ''/tmp/o.pdf'') (Some ''/tmp/a.pdf'')
         NSModalResponseOK ?g
       = Inr (noErr, \<lparr>fileName = Some ''/tmp/a.pdf'', urlFile = Some ''/tmp/a.pdf''\<rparr>,
              [copyItemAtPath ''/tmp/a.pdf'' ''/tmp/o.pdf''])"
    using FinishPrint_destinations[of "example_print_os kPMDestinationFile [] ''/tmp/o.pdf''"
      "Some ''/tmp/a.pdf''" ?g "''/tmp/a.pdf''" kPMDestinationFile "[]" "''/tmp/o.pdf''"]
    by (simp add: ex)
  have 4: "FinishPrint (example_print_os kPMDestinationFile [] ''o.ps'') (Some ''a.pdf'')
         NSModalResponseOK \<lparr>fileName = None, urlFile = Some ''a.pdf''\<rparr>
       = Inr (noErr, \<lparr>fileName = Some ''a.pdf'', urlFile = Some ''a.pdf''\<rparr>,
              [system (''/usr/sbin/cupsfilter '' @ [CHR 0x22] @ ''a.pdf'' @ [CHR 0x22]
                       @ '' -m application/postscript > '' @ [CHR 0x22] @ ''o.ps'' @ [CHR 0x22])])"
    using FinishPrint_destinations[of "example_print_os kPMDestinationFile [] ''o.ps''"
      "Some ''a.pdf''" "\<lparr>fileName = None, urlFile = Some ''a.pdf''\<rparr>" "''a.pdf''"
      kPMDestinationFile "[]" "''o.ps''"]
    by (simp add: ex)
  have 5: "FinishPrint (example_print_os kPMDestinationFile [] ''/tmp/o.txt'') (Some ''/tmp/a.pdf'')
         NSModalResponseOK ?g
       = Inr (noErr, \<lparr>fileName = Some ''/tmp/a.pdf'', urlFile = Some ''/tmp/a.pdf''\<rparr>, [])"
    using FinishPrint_destinations[of "example_print_os kPMDestinationFile [] ''/tmp/o.txt''"
      "Some ''/tmp/a.pdf''" ?g "''/tmp/a.pdf''" kPMDestinationFile "[]" "''/tmp/o.txt''"]
    by (simp add: ex)
  have 6: "FinishPrint (example_print_os kPMDestinationFax [] ''/tmp/o.pdf'') (Some ''/tmp/a.pdf'')
         NSModalResponseOK ?g
       = Inr (noErr, \<lparr>fileName = Some ''/tmp/a.pdf'', urlFile = Some ''/tmp/a.pdf''\<rparr>,
              [runAlert ''Unsupported Printing Operation''
                        ''This printing operation is not supported.''])"
    using FinishPrint_destinations[of "example_print_os kPMDestinationFax [] ''/tmp/o.pdf''"
      "Some ''/tmp/a.pdf''" ?g "''/tmp/a.pdf''" kPMDestinationFax "[]" "''/tmp/o.pdf''"]
    by (simp add: ex)
  from 1 2 3 4 5 6 show ?thesis by blast
qed

text \<open>
  The claim as stated fails for a printer that does not take PDF: with a destination of
  printer and the mime types \<open>application/postscript\<close> only, nothing is sent to the printer
  and the alert for an unsupported operation is shown.
\<close>

theorem FinishPrint_printer_without_pdf:
  "FinishPrint (example_print_os kPMDestinationPrinter [''application/postscript''] ''/tmp/o.pdf'')
      (Some ''/tmp/a.pdf'') NSModalResponseOK \<lparr>fileName = None, urlFile = Some ''/tmp/a.pdf''\<rparr>
   = Inr (noErr, \<lparr>fileName = Some ''/tmp/a.pdf'', urlFile = Some ''/tmp/a.pdf''\<rparr>,
          [runAlert ''Unsupported Printing Operation'' ''This printing operation is not supported.''])"
  by (simp add: FinishPrint_def example_print_os_def print_consts)

section \<open>Print jobs and the variables of file scope\<close>

lemma FinishPrint_keeps_urlFile:
  assumes "FinishPrint os file button g = Inr (status, g', acts)"
  shows "urlFile g' = urlFile g"
proof -
  have "g' = g \<or> g' = g\<lparr>fileName := file\<rparr>"
    using assms unfolding FinishPrint_def Let_def
    by (simp split: if_splits option.splits sum.splits)
  then show ?thesis by auto
qed

text \<open>
  Claim C5, as amended.  What \<open>StartPrint\<close> returns and does never depends on the values
  that an earlier print job left in \<open>fileName\<close> and \<open>urlFile\<close>: it depends only on its
  arguments and on the answers of the dialog and of the operating system.  When it is
  given a file it overwrites both variables before it uses them, so the whole outcome is
  the same from any earlier state.  The path of the job is not cleared afterwards: it is
  still in \<open>urlFile\<close> when \<open>StartPrint\<close> returns.
\<close>

theorem StartPrint_ignores_earlier_jobs:
  "map_sum id (\<lambda>(rc, g2, acts). (rc, acts)) (StartPrint sos os objv g)
     = map_sum id (\<lambda>(rc, g2, acts). (rc, acts)) (StartPrint sos os objv g')
   \<and> (2 \<le> length objv \<longrightarrow> StartPrint sos os objv g = StartPrint sos os objv g')
   \<and> (\<forall>rc g2 acts. 2 \<le> length objv \<and> StartPrint sos os objv g = Inr (rc, g2, acts) \<longrightarrow>
          urlFile g2 = stringWithUTF8String sos (objv ! 1) \<and> urlFile g2 \<noteq> None)"
proof -
  have 1: "map_sum id (\<lambda>(rc, g2, acts). (rc, acts)) (StartPrint sos os objv g)
     = map_sum id (\<lambda>(rc, g2, acts). (rc, acts)) (StartPrint sos os objv g')"
    by (simp add: StartPrint_def)
  have 2: "StartPrint sos os objv g = StartPrint sos os objv g'" if "2 \<le> length objv"
    using that by (simp add: StartPrint_def)
  have 3: "urlFile g2 = stringWithUTF8String sos (objv ! 1) \<and> urlFile g2 \<noteq> None"
    if a: "2 \<le> length objv \<and> StartPrint sos os objv g = Inr (rc, g2, acts)" for rc g2 acts
  proof -
    let ?s = "stringWithUTF8String sos (objv ! 1)"
    let ?g1 = "\<lparr>fileName = ?s, urlFile = ?s\<rparr>"
    from a have len: "\<not> length objv < 2" and sp: "StartPrint sos os objv g = Inr (rc, g2, acts)"
      by simp_all
    from sp len obtain retained where r: "?s = Some retained"
      by (cases ?s) (simp_all add: StartPrint_def Let_def)
    have "urlFile g2 = ?s"
    proof (cases "start_PMCreateSession sos = noErr \<and> start_PMCreatePrintSettings sos = noErr
                  \<and> start_PMSessionDefaultPrintSettings sos = noErr")
      case False
      with sp len r have "g2 = ?g1"
        by (auto simp: StartPrint_def Let_def split: if_splits)
      then show ?thesis by simp
    next
      case True
      with sp len r obtain status acts' where
        "FinishPrint os ?s (runModalWithPrintInfo sos) ?g1 = Inr (status, g2, acts')"
        by (auto simp: StartPrint_def Let_def split: sum.splits)
      from FinishPrint_keeps_urlFile[OF this] show ?thesis by simp
    qed
    with r show ?thesis by simp
  qed
  from 1 2 3 show ?thesis by blast
qed

theorem StartPrint_ignores_earlier_jobs_witness:
  "2 \<le> length [''print'', ''/tmp/b.pdf'']
   \<and> StartPrint (example_start_os NSModalResponseOK)
        (example_print_os kPMDestinationPreview [] ''/tmp/o.pdf'') [''print'', ''/tmp/b.pdf'']
        \<lparr>fileName = Some ''/tmp/a.pdf'', urlFile = Some ''/tmp/a.pdf''\<rparr>
     = StartPrint (example_start_os NSModalResponseOK)
        (example_print_os kPMDestinationPreview [] ''/tmp/o.pdf'') [''print'', ''/tmp/b.pdf''] no_job
   \<and> StartPrint (example_start_os NSModalResponseOK)
        (example_print_os kPMDestinationPreview [] ''/tmp/o.pdf'') [''print'', ''/tmp/b.pdf''] no_job
     = Inr (TCL_OK, \<lparr>fileName = Some ''/tmp/b.pdf'', urlFile = Some ''/tmp/b.pdf''\<rparr>,
            [CFRetain ''/tmp/b.pdf'', openURL ''/tmp/b.pdf''])"
proof -
  have run: "StartPrint (example_start_os NSModalResponseOK)
        (example_print_os kPMDestinationPreview [] ''/tmp/o.pdf'') [''print'', ''/tmp/b.pdf''] no_job
     = Inr (TCL_OK, \<lparr>fileName = Some ''/tmp/b.pdf'', urlFile = Some ''/tmp/b.pdf''\<rparr>,
            [CFRetain ''/tmp/b.pdf'', openURL ''/tmp/b.pdf''])"
    by (simp add: StartPrint_def FinishPrint_def example_start_os_def example_print_os_def
        print_consts no_job_def)
  from StartPrint_ignores_earlier_jobs[of "example_start_os NSModalResponseOK"
      "example_print_os kPMDestinationPreview [] ''/tmp/o.pdf''" "[''print'', ''/tmp/b.pdf'']"
      "\<lparr>fileName = Some ''/tmp/a.pdf'', urlFile = Some ''/tmp/a.pdf''\<rparr>" no_job] run
  show ?thesis by simp
qed

text \<open>
  The claim as stated fails: after a job whose dialog is cancelled, the path of the job is
  in both variables, and the string reference that \<open>StartPrint\<close> retained has not been
  released.
\<close>

theorem StartPrint_leaves_the_path:
  "StartPrint (example_start_os NSModalResponseCancel)
     (example_print_os kPMDestinationPreview [] ''/tmp/o.pdf'') [''print'', ''/tmp/a.pdf''] no_job
   = Inr (TCL_OK, \<lparr>fileName = Some ''/tmp/a.pdf'', urlFile = Some ''/tmp/a.pdf''\<rparr>,
          [CFRetain ''/tmp/a.pdf''])
   \<and> \<lparr>fileName = Some ''/tmp/a.pdf'', urlFile = Some ''/tmp/a.pdf''\<rparr> \<noteq> no_job"
  by (simp add: StartPrint_def FinishPrint_def example_start_os_def example_print_os_def
      print_consts no_job_def)

end
